theory Spec2Isabelle
  imports Main
begin

section \<open>JavaScript values\<close>

text \<open>
  An optional string field of a TypeScript interface (\<open>string | undefined\<close>) is a
  \<open>string option\<close>. In a condition JavaScript coerces it to a boolean: \<open>undefined\<close> and the
  empty string are falsy, every other string is truthy. Strict equality \<open>===\<close> on two such
  fields is equality of the options.
\<close>

definition truthy :: "string option \<Rightarrow> bool" where
  "truthy v = (case v of None \<Rightarrow> False | Some s \<Rightarrow> s \<noteq> [])"

section \<open>core/runtime/src/create-stack/create.ts\<close>

text \<open>
  The input of the handler. \<open>StackTemplateLocation\<close> is declared in another module and is a
  type parameter here; \<open>stackParameters\<close> is an object with string values, kept as its list of
  entries.
\<close>

record 'loc CreateStackInput =
  stackName :: string
  stackCapabilities :: "string list"
  stackParameters :: "(string \<times> string) list"
  stackTemplate :: 'loc
  accountId :: "string option"
  assumeRoleName :: "string option"
  region :: "string option"
  ignoreAccountId :: "string option"
  ignoreRegion :: "string option"
  parametersTableName :: string

text \<open>A rejected promise or a thrown exception, with its message.\<close>

datatype exn = Exn string

text \<open>
  The CloudFormation client as the handler constructs it: \<open>new CloudFormation(credentials,
  region)\<close> or \<open>new CloudFormation()\<close>, where both arguments are absent.
\<close>

datatype 'cred CloudFormation = CloudFormation "'cred option" "string option"

text \<open>The argument of \<open>cfn.createOrUpdateStack\<close>.\<close>

record 'params CreateOrUpdateStackInput =
  StackName :: string
  TemplateBody :: string
  Capabilities :: "string list"
  Parameters :: 'params

text \<open>
  The handler's collaborators live in other modules (\<open>load-accounts\<close>, \<open>create-stack-set\<close>,
  \<open>common/src/aws\<close>): they are parameters of the model. Each asynchronous call either
  resolves (\<open>Inr\<close>) or rejects (\<open>Inl\<close>). \<open>ownAccountId\<close> is the account of the ambient
  identity the function runs under; the handler never reads it.
\<close>

record ('loc, 'acct, 'cred, 'params) services =
  loadAccounts :: "string \<Rightarrow> exn + 'acct list"
  getTemplateBody :: "'loc \<Rightarrow> exn + string"
  getCredentialsForAccountAndRole :: "string \<Rightarrow> string \<Rightarrow> exn + 'cred"
  objectToCloudFormationParameters :: "(string \<times> string) list \<Rightarrow> 'params"
  createOrUpdateStack :: "'cred CloudFormation \<Rightarrow> 'params CreateOrUpdateStackInput \<Rightarrow> exn + unit"
  ownAccountId :: string

text \<open>The calls the handler makes on its collaborators, in the order it makes them.\<close>

datatype ('loc, 'cred, 'params) call =
  LoadAccounts string
  | GetTemplateBody 'loc
  | GetCredentialsForAccountAndRole string string
  | CreateOrUpdateStack "'cred CloudFormation" "'params CreateOrUpdateStackInput"

text \<open>
  The exclusion pre-check, lines 53 to 57: the two branches of the \<open>if\<close> that \<open>return\<close>.
\<close>

definition excluded :: "'loc CreateStackInput \<Rightarrow> bool" where
  "excluded input =
     (if truthy (ignoreAccountId input) \<and> ignoreAccountId input = accountId input
           \<and> \<not> truthy (ignoreRegion input) then True
      else if truthy (ignoreAccountId input) \<and> truthy (ignoreRegion input)
           \<and> ignoreAccountId input = accountId input \<and> ignoreRegion input = region input then True
      else False)"

text \<open>The request submitted at lines 87 to 92, for a resolved template body.\<close>

definition upsertRequest ::
  "('loc, 'acct, 'cred, 'params) services \<Rightarrow> 'loc CreateStackInput \<Rightarrow> string
     \<Rightarrow> 'params CreateOrUpdateStackInput" where
  "upsertRequest svc input templateBody =
     \<lparr> StackName = stackName input,
       TemplateBody = templateBody,
       Capabilities = stackCapabilities input,
       Parameters = objectToCloudFormationParameters svc (stackParameters input) \<rparr>"

text \<open>
  The handler. It returns the calls it made and how its promise settled: \<open>Inr ()\<close> when it
  resolved (with \<open>undefined\<close>, on every path that returns), \<open>Inl e\<close> when an awaited call
  rejected with \<open>e\<close>. Console output is not part of the model.
\<close>

definition handler ::
  "('loc, 'acct, 'cred, 'params) services \<Rightarrow> 'loc CreateStackInput
     \<Rightarrow> ('loc, 'cred, 'params) call list \<times> (exn + unit)" where
  "handler svc input =
     (if excluded input then ([], Inr ())
      else
        (case loadAccounts svc (parametersTableName input) of
           Inl e \<Rightarrow> ([LoadAccounts (parametersTableName input)], Inl e)
         | Inr accounts \<Rightarrow>
            (case getTemplateBody svc (stackTemplate input) of
               Inl e \<Rightarrow>
                 ([LoadAccounts (parametersTableName input),
                   GetTemplateBody (stackTemplate input)], Inl e)
             | Inr templateBody \<Rightarrow>
                (case (accountId input, assumeRoleName input) of
                   (Some a, Some r) \<Rightarrow>
                     (if a \<noteq> [] \<and> r \<noteq> [] then
                        (case getCredentialsForAccountAndRole svc a r of
                           Inl e \<Rightarrow>
                             ([LoadAccounts (parametersTableName input),
                               GetTemplateBody (stackTemplate input),
                               GetCredentialsForAccountAndRole a r], Inl e)
                         | Inr credentials \<Rightarrow>
                             ([LoadAccounts (parametersTableName input),
                               GetTemplateBody (stackTemplate input),
                               GetCredentialsForAccountAndRole a r,
                               CreateOrUpdateStack (CloudFormation (Some credentials) (region input))
                                 (upsertRequest svc input templateBody)],
                              createOrUpdateStack svc (CloudFormation (Some credentials) (region input))
                                (upsertRequest svc input templateBody)))
                      else
                        ([LoadAccounts (parametersTableName input),
                          GetTemplateBody (stackTemplate input),
                          CreateOrUpdateStack (CloudFormation None None)
                            (upsertRequest svc input templateBody)],
                         createOrUpdateStack svc (CloudFormation None None)
                           (upsertRequest svc input templateBody)))
                 | _ \<Rightarrow>
                     ([LoadAccounts (parametersTableName input),
                       GetTemplateBody (stackTemplate input),
                       CreateOrUpdateStack (CloudFormation None None)
                         (upsertRequest svc input templateBody)],
                      createOrUpdateStack svc (CloudFormation None None)
                        (upsertRequest svc input templateBody))))))"

section \<open>deployments/cdk/src/deployments/defaults/step-1.ts\<close>

subsection \<open>Constructs and policy statements\<close>

datatype principal =
  AnyPrincipal
  | AccountPrincipal string
  | ArnPrincipal string
  | ServicePrincipal string

datatype effect = ALLOW | DENY

record PolicyStatement =
  sid :: "string option"
  effect :: effect
  principals :: "principal list"
  actions :: "string list"
  resources :: "string list"
  conditions :: "(string \<times> (string \<times> string) list) list"

text \<open>
  A \<open>kms.Key\<close> as its constructor receives it: the scope (an account stack), the construct
  id and the properties.
\<close>

record 'stack Key =
  keyScope :: 'stack
  keyConstructId :: string
  keyAliasName :: string
  description :: string
  enableKeyRotation :: bool

record S3PublicAccessBlockProps =
  blockPublicAcls :: bool
  blockPublicPolicy :: bool
  ignorePublicAcls :: bool
  restrictPublicBuckets :: bool

text \<open>
  What the two functions do to the world, in order: console output, and the constructs they
  create. Constructing a resource in a stack is recorded as an event that names the stack
  and the construct id. \<open>NewKey\<close> also records the loop variables \<open>localAccountKey\<close> and
  \<open>region\<close> under which \<open>new kms.Key\<close> ran, so that an allocation can be attributed to its
  target.
\<close>

datatype 'stack effect_event =
  ConsoleLog string
  | ConsoleWarn string
  | NewS3PublicAccessBlock 'stack string S3PublicAccessBlockProps
  | NewKey string string "'stack Key"
  | AddToResourcePolicy "'stack Key" PolicyStatement
  | NewEbsDefaultEncryption 'stack string "'stack Key"
  | NewCfnEbsKmsOutput 'stack string string "'stack Key"

subsection \<open>Configuration and properties\<close>

text \<open>
  One element of \<open>config.getVpcConfigs()\<close>. Of the VPC configuration the function reads the
  region; the rest is passed on to the sharing predicate and is a type parameter.
\<close>

record 'vpc VpcConfig =
  vpcRegion :: string
  vpcRest :: 'vpc

record 'vpc ResolvedVpcConfig =
  accountKey :: string
  vpcConfig :: "'vpc VpcConfig"
  ouKey :: "string option"

record AccountConfig =
  enableS3PublicAccess :: "bool option"

text \<open>
  The part of \<open>DefaultsStep1Props\<close> the two functions read, with the methods they call on
  \<open>config\<close> and \<open>accountStacks\<close> as fields. \<open>AccountStacks\<close>, \<open>getVpcSharedAccountKeys\<close> and
  \<open>createEncryptionKeyName\<close> are defined in other modules and are parameters:
  \<open>tryGetOrCreateAccountStack key region\<close> is the stack handle of the target, or \<open>None\<close>
  (\<open>undefined\<close>) when no stack can be obtained for it; within a run, the same target has the
  same handle.
\<close>

record ('acct, 'vpc, 'stack) DefaultsStep1Props =
  tryGetOrCreateAccountStack :: "string \<Rightarrow> string option \<Rightarrow> 'stack option"
  accounts :: "'acct list"
  getAccountConfigs :: "(string \<times> AccountConfig) list"
  getVpcConfigs :: "'vpc ResolvedVpcConfig list"
  getVpcSharedAccountKeys :: "'acct list \<Rightarrow> 'vpc VpcConfig \<Rightarrow> string option \<Rightarrow> string list"
  createEncryptionKeyName :: "string \<Rightarrow> string"

text \<open>
  \<open>AccountRegionEbsEncryptionKeys\<close>: an object indexed by account key whose values are
  objects indexed by region.
\<close>

type_synonym 'stack AccountRegionEbsEncryptionKeys = "string \<rightharpoonup> (string \<rightharpoonup> 'stack Key)"

subsection \<open>blockS3PublicAccess\<close>






subsection \<open>createDefaultEbsEncryptionKey\<close>

text \<open>
  \<open>Array.from(new Set(xs))\<close>: a set keeps its elements in insertion order, and adding an
  element it already has changes nothing.
\<close>

definition arrayFromSet :: "'a list \<Rightarrow> 'a list" where
  "arrayFromSet xs = fold (\<lambda>x acc. if x \<in> set acc then acc else acc @ [x]) xs []"

text \<open>Lines 373 to 375: the account keys of one VPC configuration.\<close>

definition accountKeys ::
  "('acct, 'vpc, 'stack) DefaultsStep1Props \<Rightarrow> 'vpc ResolvedVpcConfig \<Rightarrow> string list" where
  "accountKeys props vpc =
     (let vpcSharedTo = getVpcSharedAccountKeys props (accounts props) (vpcConfig vpc) (ouKey vpc)
      in arrayFromSet (vpcSharedTo @ [accountKey vpc]))"

text \<open>Line 377: \<open>accountEbsEncryptionKeys[localAccountKey]?.[region]\<close> as a condition.\<close>

definition alreadyCreated ::
  "'stack AccountRegionEbsEncryptionKeys \<Rightarrow> string \<Rightarrow> string \<Rightarrow> bool" where
  "alreadyCreated keys localAccountKey region' =
     (case keys localAccountKey of
        None \<Rightarrow> False
      | Some regions \<Rightarrow> (case regions region' of None \<Rightarrow> False | Some key \<Rightarrow> True))"

text \<open>Lines 410 to 413: the spread of the account's entry, with the region set to the key.\<close>

definition recordKey ::
  "'stack AccountRegionEbsEncryptionKeys \<Rightarrow> string \<Rightarrow> string \<Rightarrow> 'stack Key
     \<Rightarrow> 'stack AccountRegionEbsEncryptionKeys" where
  "recordKey keys localAccountKey region' key =
     keys(localAccountKey \<mapsto>
       (case keys localAccountKey of None \<Rightarrow> Map.empty | Some regions \<Rightarrow> regions)(region' \<mapsto> key))"

text \<open>
  The body of the inner loop, lines 377 to 419, for one \<open>localAccountKey\<close>. The principal
  of the key policy is \<open>cdk.Aws.ACCOUNT_ID\<close>, the pseudo parameter \<open>AWS::AccountId\<close>. The
  check of line 377 keeps a target from being constructed twice, and different targets have
  different stacks: the constructors of this loop find their ids free.
\<close>

definition ebsKeyStep ::
  "('acct, 'vpc, 'stack) DefaultsStep1Props \<Rightarrow> string \<Rightarrow> string
     \<Rightarrow> 'stack AccountRegionEbsEncryptionKeys \<times> 'stack effect_event list
     \<Rightarrow> 'stack AccountRegionEbsEncryptionKeys \<times> 'stack effect_event list" where
  "ebsKeyStep props region' localAccountKey st =
     (case st of (keys, out) \<Rightarrow>
        if alreadyCreated keys localAccountKey region' then
          (keys, out @ [ConsoleLog (''EBSEncryptionKey is already created in account ''
                          @ localAccountKey @ '' and region '' @ region')])
        else
          (case tryGetOrCreateAccountStack props localAccountKey (Some region') of
             None \<Rightarrow> (keys, out @ [ConsoleWarn (''Cannot find account stack '' @ localAccountKey)])
           | Some accountStack \<Rightarrow>
               (let keyAlias = createEncryptionKeyName props ''EBS-Key'';
                    key = \<lparr> keyScope = accountStack,
                            keyConstructId = ''EbsDefaultEncryptionKey'',
                            keyAliasName = ''alias/'' @ keyAlias,
                            description = ''Key used to encrypt/decrypt EBS by default'',
                            enableKeyRotation = True \<rparr>
                in (recordKey keys localAccountKey region' key,
                    out @ [NewKey localAccountKey region' key,
                           AddToResourcePolicy key
                             \<lparr> sid = None, effect = ALLOW,
                               principals = [AccountPrincipal ''AWS::AccountId''],
                               actions = [''kms:*''],
                               resources = [''*''],
                               conditions = [] \<rparr>,
                           NewEbsDefaultEncryption accountStack ''EbsDefaultEncryptionSet'' key,
                           NewCfnEbsKmsOutput accountStack ''EbsEncryptionKey'' keyAlias key]))))"

text \<open>The body of the outer loop, lines 372 to 420, for one VPC configuration.\<close>

definition ebsVpcStep ::
  "('acct, 'vpc, 'stack) DefaultsStep1Props \<Rightarrow> 'vpc ResolvedVpcConfig
     \<Rightarrow> 'stack AccountRegionEbsEncryptionKeys \<times> 'stack effect_event list
     \<Rightarrow> 'stack AccountRegionEbsEncryptionKeys \<times> 'stack effect_event list" where
  "ebsVpcStep props vpc st =
     fold (ebsKeyStep props (vpcRegion (vpcConfig vpc))) (accountKeys props vpc) st"

definition createDefaultEbsEncryptionKey ::
  "('acct, 'vpc, 'stack) DefaultsStep1Props
     \<Rightarrow> 'stack AccountRegionEbsEncryptionKeys \<times> 'stack effect_event list" where
  "createDefaultEbsEncryptionKey props =
     fold (ebsVpcStep props) (getVpcConfigs props) (Map.empty, [])"




text \<open>The targets at which \<open>new kms.Key\<close> ran, in order.\<close>

fun allocations :: "'stack effect_event list \<Rightarrow> (string \<times> string) list" where
  "allocations [] = []"
| "allocations (NewKey k r key # es) = (k, r) # allocations es"
| "allocations (e # es) = allocations es"

section \<open>The custom resource Ec2AcceptVpcEndpointConnection\<close>

text \<open>
  The construct tree of one stack. A construct is known by its path from the stack, the list
  of construct ids leading to it; the children of the stack have paths of length one.
  \<open>new C(scope, id, ...)\<close> adds a construct at the path of \<open>scope\<close> extended by \<open>id\<close> and throws
  when the scope already has a child of that id. The tree is kept as the list of its
  constructs in the order of their creation.
\<close>

type_synonym path = "string list"

record Ec2AcceptVpcEndpointConnectionProps =
  serviceId :: string
  endpoints :: "string list"
  roleArn :: string

record FunctionProps =
  runtime :: string
  code :: string
  fnHandler :: string
  fnRole :: path
  timeoutMinutes :: nat

text \<open>The ARN of the function constructed at a path.\<close>

datatype token = FunctionArn path

datatype construct =
  LambdaFunction path FunctionProps
  | RoleFromRoleArn path string
  | CustomResource path string "token option" Ec2AcceptVpcEndpointConnectionProps
  | Ec2AcceptVpcEndpointConnection path
  | OtherConstruct path

fun nodePath :: "construct \<Rightarrow> path" where
  "nodePath (LambdaFunction p props) = p"
| "nodePath (RoleFromRoleArn p arn) = p"
| "nodePath (CustomResource p ty tok props) = p"
| "nodePath (Ec2AcceptVpcEndpointConnection p) = p"
| "nodePath (OtherConstruct p) = p"

text \<open>
  \<open>existing.functionArn\<close>: the ARN of a function; the property is \<open>undefined\<close> on a construct
  of another class (the getter casts without a check).
\<close>

fun functionArn :: "construct \<Rightarrow> token option" where
  "functionArn (LambdaFunction p props) = Some (FunctionArn p)"
| "functionArn c = None"

definition resourceType :: string where
  "resourceType = ''Custom::ModifyVpcEndpointServicePermissions''"

definition constructName :: string where
  "constructName = resourceType @ ''Lambda''"

text \<open>\<open>stack.node.tryFindChild(id)\<close>.\<close>

definition tryFindChild :: "construct list \<Rightarrow> string \<Rightarrow> construct option" where
  "tryFindChild stack ident = find (\<lambda>c. nodePath c = [ident]) stack"

text \<open>The constructor of \<open>Construct\<close>: registers the new construct with its scope.\<close>

definition newConstruct :: "construct list \<Rightarrow> construct \<Rightarrow> exn + construct list" where
  "newConstruct stack c =
     (if nodePath c \<in> set (map nodePath stack)
      then Inl (Exn (''There is already a Construct with name '' @ last (nodePath c)))
      else Inr (stack @ [c]))"

text \<open>
  The getter \<open>lambdaFunction\<close> of the construct at path \<open>this\<close>, whose \<open>role\<close> field holds the
  construct at \<open>thisRole\<close>. \<open>lambdaDir\<close> is the directory of the runtime package, which
  \<open>require.resolve\<close> finds. The getter returns the function and the stack.
\<close>

definition lambdaFunction ::
  "string \<Rightarrow> path \<Rightarrow> construct list \<Rightarrow> exn + construct \<times> construct list" where
  "lambdaFunction lambdaDir thisRole stack =
     (case tryFindChild stack constructName of
        Some existing \<Rightarrow> Inr (existing, stack)
      | None \<Rightarrow>
          (let fn = LambdaFunction [constructName]
                      \<lparr> runtime = ''nodejs14.x'',
                        code = lambdaDir,
                        fnHandler = ''index.handler'',
                        fnRole = thisRole,
                        timeoutMinutes = 15 \<rparr>
           in case newConstruct stack fn of
                Inl e \<Rightarrow> Inl e
              | Inr stack' \<Rightarrow> Inr (fn, stack')))"

text \<open>
  The constructor \<open>new Ec2AcceptVpcEndpointConnection(scope, id, props)\<close>, for a scope inside
  the stack, given by its path (the empty path is the stack itself).
\<close>

definition newEc2AcceptVpcEndpointConnection ::
  "string \<Rightarrow> path \<Rightarrow> string \<Rightarrow> Ec2AcceptVpcEndpointConnectionProps \<Rightarrow> construct list
     \<Rightarrow> exn + construct list" where
  "newEc2AcceptVpcEndpointConnection lambdaDir scope ident props stack =
     (let this = scope @ [ident] in
      case newConstruct stack (Ec2AcceptVpcEndpointConnection this) of
        Inl e \<Rightarrow> Inl e
      | Inr stack1 \<Rightarrow>
         (case newConstruct stack1 (RoleFromRoleArn (this @ [resourceType @ ''Role'']) (roleArn props)) of
            Inl e \<Rightarrow> Inl e
          | Inr stack2 \<Rightarrow>
             (case lambdaFunction lambdaDir (this @ [resourceType @ ''Role'']) stack2 of
                Inl e \<Rightarrow> Inl e
              | Inr (fn, stack3) \<Rightarrow>
                  newConstruct stack3
                    (CustomResource (this @ [''Resource'']) resourceType (functionArn fn) props))))"

text \<open>
  A program that constructs several of these custom resources in the stack, one after the
  other; an exception ends it.
\<close>

fun constructAll ::
  "string \<Rightarrow> (path \<times> string \<times> Ec2AcceptVpcEndpointConnectionProps) list \<Rightarrow> construct list
     \<Rightarrow> exn + construct list" where
  "constructAll lambdaDir [] stack = Inr stack"
| "constructAll lambdaDir ((scope, ident, props) # rest) stack =
     (case newEc2AcceptVpcEndpointConnection lambdaDir scope ident props stack of
        Inl e \<Rightarrow> Inl e
      | Inr stack' \<Rightarrow> constructAll lambdaDir rest stack')"

text \<open>The functions of the stack that were constructed under the fixed construct name.\<close>

fun isBackingLambda :: "construct \<Rightarrow> bool" where
  "isBackingLambda (LambdaFunction p props) = (p = [constructName])"
| "isBackingLambda c = False"

text \<open>The service tokens of the custom resources of this resource type, in order.\<close>

fun serviceTokens :: "construct list \<Rightarrow> token option list" where
  "serviceTokens [] = []"
| "serviceTokens (CustomResource p ty tok props # cs) =
     (if ty = resourceType then tok # serviceTokens cs else serviceTokens cs)"
| "serviceTokens (c # cs) = serviceTokens cs"

section \<open>deployments/cdk/src/deployments/metadata-collection/index.ts\<close>

text \<open>
  The file holds two definitions of \<open>createMetadataService\<close>: the current one (lines 27 to
  248) and an older one (lines 274 to 443), here with the suffix \<open>Old\<close>.
\<close>

record IamRoleConfig =
  role :: string
  metaDataReadOnlyAccess :: "bool option"

record IamConfig =
  roles :: "IamRoleConfig list option"

text \<open>
  \<open>MetadataServiceProps\<close>, with what the function reads of the configuration and the methods
  it calls as fields. \<open>managementAccount\<close>, \<open>logAccount\<close> and \<open>logRegion\<close> are the account keys
  and the region of the global options; \<open>getIamConfigs\<close> lists the account key and IAM
  configuration of each entry. \<open>AccountStacks\<close>, \<open>getAccountId\<close> and
  \<open>IamRoleNameOutputFinder\<close> are defined in other modules and are parameters:
  \<open>getOrCreateAccountStack\<close> returns the stack of an account or throws,
  \<open>tryGetOrCreateStack\<close> is \<open>accountStacks.tryGetOrCreateAccountStack\<close> for an account key and
  a region, \<open>tryFindRoleOutput\<close> is the ARN of the role output found for an account key and a
  role name (\<open>None\<close> is \<open>undefined\<close>). \<open>organizationId\<close> and \<open>bucketArn\<close> stand for the
  attributes of the constructs of these names, \<open>stackRegion\<close> for the region of a stack.
\<close>

record ('acct, 'stack) MetadataServiceProps =
  acceleratorPrefix :: string
  metadataAccounts :: "'acct list"
  managementAccount :: string
  logAccount :: string
  logRegion :: string
  getIamConfigs :: "(string \<times> IamConfig) list"
  getAccountId :: "'acct list \<Rightarrow> string \<Rightarrow> string option"
  getOrCreateAccountStack :: "string \<Rightarrow> exn + 'stack"
  tryGetOrCreateStack :: "string \<Rightarrow> string \<Rightarrow> 'stack option"
  tryFindRoleOutput :: "string \<Rightarrow> string \<Rightarrow> string option"
  stackRegion :: "'stack \<Rightarrow> string"
  organizationId :: string
  bucketArn :: string

text \<open>
  What the function does, in order. Of a construct the model keeps the class, the scope and
  the construct id; its properties reach no policy. \<open>grantEncrypt\<close> and \<open>grantWrite\<close> are
  kept as calls that name the grantee: what they add to the policy of the key or the bucket
  is the CDK's to decide (between two accounts, a statement whose principal is the role of
  the grantee).
\<close>

datatype 'stack metadata_effect =
  Construct string 'stack string
  | KeyAddToResourcePolicy PolicyStatement
  | BucketAddToResourcePolicy PolicyStatement
  | OverrideLogicalId string string
  | RoleAddToPolicy PolicyStatement
  | KeyGrantEncrypt string
  | BucketGrantWrite string
  | RuleAddTarget string
  | PolicyAddStatements 'stack string "PolicyStatement list"
  | PolicyAttachToRole 'stack string string

text \<open>The children, by scope and id, that a list of effects has constructed.\<close>

fun metadataConstructIds :: "'stack metadata_effect list \<Rightarrow> ('stack \<times> string) list" where
  "metadataConstructIds [] = []"
| "metadataConstructIds (Construct cls scope ident # es) = (scope, ident) # metadataConstructIds es"
| "metadataConstructIds (e # es) = metadataConstructIds es"

text \<open>
  A run of the function: the effects made, and the exception that ended it, if one did.
  \<open>andThen\<close> goes on after a run that did not throw.
\<close>

definition andThen ::
  "'e list \<times> exn option \<Rightarrow> ('e list \<Rightarrow> 'e list \<times> exn option) \<Rightarrow> 'e list \<times> exn option" where
  "andThen run next = (case snd run of Some e \<Rightarrow> run | None \<Rightarrow> next (fst run))"

text \<open>
  \<open>new C(scope, id, ...)\<close> after the effects \<open>effs\<close>: the constructor throws when the scope
  has a child of that id.
\<close>

definition construct ::
  "string \<Rightarrow> 'stack \<Rightarrow> string \<Rightarrow> 'stack metadata_effect list
     \<Rightarrow> 'stack metadata_effect list \<times> exn option" where
  "construct cls scope ident effs =
     (if (scope, ident) \<in> set (metadataConstructIds effs)
      then (effs, Some (Exn (''There is already a Construct with name '' @ ident)))
      else (effs @ [Construct cls scope ident], None))"

text \<open>A value of type \<open>string | undefined\<close> inside a template literal.\<close>

definition templateString :: "string option \<Rightarrow> string" where
  "templateString v = (case v of None \<Rightarrow> ''undefined'' | Some s \<Rightarrow> s)"

text \<open>\<open>toLowerCase\<close>, on the letters of ASCII.\<close>

definition toLowerCase :: "string \<Rightarrow> string" where
  "toLowerCase s =
     map (\<lambda>c. if 65 \<le> (of_char c :: nat) \<and> (of_char c :: nat) \<le> 90
               then char_of ((of_char c :: nat) + 32) else c) s"

text \<open>Lines 43 to 46: the name of the bucket.\<close>

definition bucketName :: "('acct, 'stack) MetadataServiceProps \<Rightarrow> string" where
  "bucketName props =
     toLowerCase (acceleratorPrefix props)
       @ templateString (getAccountId props (metadataAccounts props) (logAccount props))
       @ ''-metadata-bucket''"

text \<open>\<open>bucket.arnForObjects('*')\<close>.\<close>

definition arnForObjects :: "('acct, 'stack) MetadataServiceProps \<Rightarrow> string" where
  "arnForObjects props = bucketArn props @ ''/*''"

text \<open>The inner loop of lines 67 to 71, for the roles of one account.\<close>

fun readOnlyRolesOf :: "string \<Rightarrow> IamRoleConfig list \<Rightarrow> principal list" where
  "readOnlyRolesOf accountId' [] = []"
| "readOnlyRolesOf accountId' (r # rs) =
     (if metaDataReadOnlyAccess r = Some True
      then ArnPrincipal (''arn:aws:iam::'' @ accountId' @ '':role/'' @ role r) # readOnlyRolesOf accountId' rs
      else readOnlyRolesOf accountId' rs)"

text \<open>The outer loop of lines 63 to 72 (and 304 to 313): \<open>metadataReadOnlyRoles\<close>.\<close>

fun collectReadOnlyRoles ::
  "('acct, 'stack) MetadataServiceProps \<Rightarrow> (string \<times> IamConfig) list \<Rightarrow> principal list" where
  "collectReadOnlyRoles props [] = []"
| "collectReadOnlyRoles props ((key, iamConfig) # rest) =
     readOnlyRolesOf (templateString (getAccountId props (metadataAccounts props) key))
       (case roles iamConfig of None \<Rightarrow> [] | Some rs \<Rightarrow> rs)
     @ collectReadOnlyRoles props rest"

definition metadataReadOnlyRoles :: "('acct, 'stack) MetadataServiceProps \<Rightarrow> principal list" where
  "metadataReadOnlyRoles props = collectReadOnlyRoles props (getIamConfigs props)"

text \<open>The statements of lines 75 to 88, for the principals collected.\<close>

definition readOnlyKeyStatement :: "principal list \<Rightarrow> PolicyStatement" where
  "readOnlyKeyStatement ps =
     \<lparr> sid = None, effect = ALLOW, principals = ps,
       actions = [''kms:Decrypt'', ''kms:DescribeKey'', ''kms:GenerateDataKey''],
       resources = [''*''], conditions = [] \<rparr>"

definition readOnlyBucketStatement ::
  "('acct, 'stack) MetadataServiceProps \<Rightarrow> principal list \<Rightarrow> PolicyStatement" where
  "readOnlyBucketStatement props ps =
     \<lparr> sid = None, effect = ALLOW, principals = ps,
       actions = [''s3:GetObject'', ''s3:ListBucket''],
       resources = [bucketArn props, arnForObjects props], conditions = [] \<rparr>"

text \<open>The condition both definitions put on the statements for the organization's roles.\<close>

definition acceleratorRoleConditions ::
  "('acct, 'stack) MetadataServiceProps \<Rightarrow> (string \<times> (string \<times> string) list) list" where
  "acceleratorRoleConditions props =
     [(''StringEquals'', [(''aws:PrincipalOrgID'', organizationId props)]),
      (''ArnLike'', [(''aws:PrincipalARN'', ''arn:aws:iam::*:role/'' @ acceleratorPrefix props @ ''*'')])]"

text \<open>
  The statement for the key that follows the guarded block: lines 91 to 105 of the current
  definition, lines 333 to 347 of the older one, which allows \<open>kms:Decrypt\<close> alone.
\<close>

definition acceleratorKeyStatement :: "('acct, 'stack) MetadataServiceProps \<Rightarrow> PolicyStatement" where
  "acceleratorKeyStatement props =
     \<lparr> sid = None, effect = ALLOW, principals = [AnyPrincipal],
       actions = [''kms:Decrypt'', ''kms:GenerateDataKey''],
       resources = [''*''],
       conditions = acceleratorRoleConditions props \<rparr>"

definition acceleratorKeyStatementOld :: "('acct, 'stack) MetadataServiceProps \<Rightarrow> PolicyStatement" where
  "acceleratorKeyStatementOld props =
     \<lparr> sid = None, effect = ALLOW, principals = [AnyPrincipal],
       actions = [''kms:Decrypt''],
       resources = [''*''],
       conditions = acceleratorRoleConditions props \<rparr>"

text \<open>The statements added to the bucket after the guarded block, the same in both definitions.\<close>

definition bucketBaseStatements :: "('acct, 'stack) MetadataServiceProps \<Rightarrow> PolicyStatement list" where
  "bucketBaseStatements props =
     [\<lparr> sid = None, effect = ALLOW, principals = [AnyPrincipal],
        actions = [''s3:Get*'', ''s3:List*''],
        resources = [bucketArn props, arnForObjects props],
        conditions = acceleratorRoleConditions props \<rparr>,
      \<lparr> sid = None, effect = DENY, principals = [AnyPrincipal],
        actions = [''s3:*''],
        resources = [bucketArn props, arnForObjects props],
        conditions = [(''Bool'', [(''aws:SecureTransport'', ''false'')])] \<rparr>]"

text \<open>An array in a condition: an array is an object, and every object is truthy.\<close>

definition truthyArray :: "'a list \<Rightarrow> bool" where
  "truthyArray xs = True"

text \<open>
  Lines 35 to 54 (and 280 to 295): the organization, the key and the bucket, constructed in
  the stack of the log account (in the older definition, of the management account).
\<close>

definition metadataBucket ::
  "'stack \<Rightarrow> 'stack metadata_effect list \<Rightarrow> 'stack metadata_effect list \<times> exn option" where
  "metadataBucket accountStack effs =
     andThen (construct ''Organizations'' accountStack ''MetadataOrganizations'' effs)
       (\<lambda>effs1. andThen (construct ''kms.Key'' accountStack ''MetadataBucketKey'' effs1)
          (construct ''s3.Bucket'' accountStack ''MetadataBucket''))"

text \<open>
  Lines 60 to 137 of the current definition: the statements added to the key and to the
  bucket. The guard of line 74 is \<open>metadataReadOnlyRoles.length > 0\<close>.
\<close>

definition metadataStatements ::
  "('acct, 'stack) MetadataServiceProps \<Rightarrow> 'stack metadata_effect list
     \<Rightarrow> 'stack metadata_effect list" where
  "metadataStatements props effs =
     (let readOnly = metadataReadOnlyRoles props
      in effs @
         (if length readOnly > 0
          then [KeyAddToResourcePolicy (readOnlyKeyStatement readOnly),
                BucketAddToResourcePolicy (readOnlyBucketStatement props readOnly)]
          else []) @
         [KeyAddToResourcePolicy (acceleratorKeyStatement props)] @
         map BucketAddToResourcePolicy (bucketBaseStatements props))"

text \<open>
  Lines 301 to 379 of the older definition. The guard of line 315 is the array
  \<open>metadataReadOnlyRoles\<close> itself.
\<close>

definition metadataStatementsOld ::
  "('acct, 'stack) MetadataServiceProps \<Rightarrow> 'stack metadata_effect list
     \<Rightarrow> 'stack metadata_effect list" where
  "metadataStatementsOld props effs =
     (let readOnly = metadataReadOnlyRoles props
      in effs @
         (if truthyArray readOnly
          then [KeyAddToResourcePolicy (readOnlyKeyStatement readOnly),
                BucketAddToResourcePolicy (readOnlyBucketStatement props readOnly)]
          else []) @
         [KeyAddToResourcePolicy (acceleratorKeyStatementOld props)] @
         map BucketAddToResourcePolicy (bucketBaseStatements props))"

text \<open>The statement of lines 147 to 176 (and 389 to 418) for the role of the Lambda function.\<close>

definition lambdaRoleStatement :: PolicyStatement where
  "lambdaRoleStatement =
     \<lparr> sid = None, effect = ALLOW, principals = [],
       actions =
         [''codecommit:GetFile'', ''dynamodb:BatchGetItem'', ''dynamodb:GetRecords'',
          ''dynamodb:GetShardIterator'', ''dynamodb:Query'', ''dynamodb:GetItem'',
          ''dynamodb:Scan'', ''kms:DescribeKey'', ''kms:Decrypt'', ''kms:Encrypt'',
          ''kms:ReEncrypt*'', ''kms:GenerateDataKey*'', ''logs:CreateLogGroup'',
          ''logs:CreateLogStream'', ''logs:PutLogEvents'', ''organizations:Describe*'',
          ''organizations:List*'', ''organizations:Get*'', ''secretsmanager:Get*'',
          ''ssm:Get*'', ''states:List*'', ''sts:GetCallerIndentity'', ''s3:*''],
       resources = [''*''], conditions = [] \<rparr>"

text \<open>
  Lines 139 to 198 (and 381 to 440): the role and the Lambda function in the stack of the
  management account, the grants on the key and the bucket, and the schedule.
\<close>

definition metadataLambda ::
  "'stack \<Rightarrow> 'stack metadata_effect list \<Rightarrow> 'stack metadata_effect list \<times> exn option" where
  "metadataLambda masterAccountStack effs =
     andThen (construct ''iam.Role'' masterAccountStack ''metadata-lambda'' effs)
       (\<lambda>effs1.
          andThen (construct ''lambda.Function'' masterAccountStack ''MetadataLambda''
                     (effs1 @ [RoleAddToPolicy lambdaRoleStatement]))
            (\<lambda>effs2.
               andThen (construct ''events.Rule'' masterAccountStack ''MetadataCWRule''
                          (effs2 @ [KeyGrantEncrypt ''MetadataLambda'',
                                    BucketGrantWrite ''MetadataLambda'']))
                 (\<lambda>effs3. (effs3 @ [RuleAddTarget ''MetadataLambda''], None))))"

text \<open>The statements of lines 228 to 240 for a managed policy.\<close>

definition metadataPolicyStatements :: "('acct, 'stack) MetadataServiceProps \<Rightarrow> PolicyStatement list" where
  "metadataPolicyStatements props =
     [\<lparr> sid = None, effect = ALLOW, principals = [],
        actions = [''kms:Decrypt'', ''kms:DescribeKey'', ''kms:GenerateDataKey''],
        resources = [''*''], conditions = [] \<rparr>,
      \<lparr> sid = None, effect = ALLOW, principals = [],
        actions = [''s3:GetObject'', ''s3:ListBucket''],
        resources = [''arn:aws:s3:::'' @ bucketName props,
                     ''arn:aws:s3:::'' @ bucketName props @ ''/*''],
        conditions = [] \<rparr>]"

text \<open>
  The body of the loop of lines 221 to 244, for one role output: a managed policy under an
  id made of the account key, and, when the output was found, the imported role it is
  attached to.
\<close>

definition metadataPolicyFor ::
  "('acct, 'stack) MetadataServiceProps \<Rightarrow> string \<Rightarrow> 'stack \<Rightarrow> string option
     \<Rightarrow> 'stack metadata_effect list \<Rightarrow> 'stack metadata_effect list \<times> exn option" where
  "metadataPolicyFor props key stackToUpdate output effs =
     andThen (construct ''iam.ManagedPolicy'' stackToUpdate (''IAM-Metadata-Policy-'' @ key) effs)
       (\<lambda>effs1.
          (case output of
             None \<Rightarrow>
               (effs1 @ [PolicyAddStatements stackToUpdate (''IAM-Metadata-Policy-'' @ key)
                           (metadataPolicyStatements props)], None)
           | Some roleArn' \<Rightarrow>
               andThen (construct ''iam.Role'' stackToUpdate ''metadataRole''
                          (effs1 @ [PolicyAddStatements stackToUpdate
                                      (''IAM-Metadata-Policy-'' @ key)
                                      (metadataPolicyStatements props)]))
                 (\<lambda>effs2. (effs2 @ [PolicyAttachToRole stackToUpdate
                                       (''IAM-Metadata-Policy-'' @ key) roleArn'], None))))"

text \<open>The loop of lines 221 to 244 over the role outputs of one account.\<close>

fun metadataPoliciesOf ::
  "('acct, 'stack) MetadataServiceProps \<Rightarrow> string \<Rightarrow> 'stack \<Rightarrow> string option list
     \<Rightarrow> 'stack metadata_effect list \<Rightarrow> 'stack metadata_effect list \<times> exn option" where
  "metadataPoliciesOf props key stackToUpdate [] effs = (effs, None)"
| "metadataPoliciesOf props key stackToUpdate (output # rest) effs =
     (case metadataPolicyFor props key stackToUpdate output effs of
        (effs', Some e) \<Rightarrow> (effs', Some e)
      | (effs', None) \<Rightarrow> metadataPoliciesOf props key stackToUpdate rest effs')"

text \<open>
  The loop of lines 201 to 246 over the IAM configurations: the roles with read-only access,
  their outputs, the stack of the account in the region of the log services, and, when there
  are outputs and a stack, the policies.
\<close>

fun metadataPolicies ::
  "('acct, 'stack) MetadataServiceProps \<Rightarrow> (string \<times> IamConfig) list
     \<Rightarrow> 'stack metadata_effect list \<Rightarrow> 'stack metadata_effect list \<times> exn option" where
  "metadataPolicies props [] effs = (effs, None)"
| "metadataPolicies props ((key, iamConfig) # rest) effs =
     (let metadataroles =
            (case roles iamConfig of
               None \<Rightarrow> None
             | Some rs \<Rightarrow> Some (filter (\<lambda>r. metaDataReadOnlyAccess r = Some True) rs));
          roleOutputs =
            (case metadataroles of
               None \<Rightarrow> None
             | Some rs \<Rightarrow> Some (map (\<lambda>r. tryFindRoleOutput props key (role r)) rs));
          stackToUpdate = tryGetOrCreateStack props key (logRegion props)
      in case (roleOutputs, stackToUpdate) of
           (Some outputs, Some stack) \<Rightarrow>
             (if length outputs > 0
              then (case metadataPoliciesOf props key stack outputs effs of
                      (effs', Some e) \<Rightarrow> (effs', Some e)
                    | (effs', None) \<Rightarrow> metadataPolicies props rest effs')
              else metadataPolicies props rest effs)
         | _ \<Rightarrow> metadataPolicies props rest effs)"

text \<open>
  The current definition, from stacks that hold none of its constructs yet. An exception of
  \<open>getOrCreateAccountStack\<close> or of a constructor ends it with the effects made so far.
\<close>

definition createMetadataService ::
  "('acct, 'stack) MetadataServiceProps \<Rightarrow> 'stack metadata_effect list \<times> exn option" where
  "createMetadataService props =
     (case getOrCreateAccountStack props (managementAccount props) of
        Inl e \<Rightarrow> ([], Some e)
      | Inr masterAccountStack \<Rightarrow>
          (case getOrCreateAccountStack props (logAccount props) of
             Inl e \<Rightarrow> ([], Some e)
           | Inr logAccountStack \<Rightarrow>
               andThen (metadataBucket logAccountStack [])
                 (\<lambda>effs1.
                    andThen (metadataLambda masterAccountStack (metadataStatements props effs1))
                      (metadataPolicies props (getIamConfigs props)))))"

text \<open>
  The older definition: everything is constructed in the stack of the management account,
  the logical id of the bucket is overridden (line 299), and there are no managed policies.
\<close>

definition createMetadataServiceOld ::
  "('acct, 'stack) MetadataServiceProps \<Rightarrow> 'stack metadata_effect list \<times> exn option" where
  "createMetadataServiceOld props =
     (case getOrCreateAccountStack props (managementAccount props) of
        Inl e \<Rightarrow> ([], Some e)
      | Inr masterAccountStack \<Rightarrow>
          andThen (metadataBucket masterAccountStack [])
            (\<lambda>effs1.
               metadataLambda masterAccountStack
                 (metadataStatementsOld props
                    (effs1 @ [OverrideLogicalId ''MetadataBucket''
                                (''metadata'' @ stackRegion props masterAccountStack)]))))"

text \<open>
  The statements that a run has added to the policy of the key and of the bucket with
  \<open>addToResourcePolicy\<close>, in order.
\<close>

fun keyStatements :: "'stack metadata_effect list \<Rightarrow> PolicyStatement list" where
  "keyStatements [] = []"
| "keyStatements (KeyAddToResourcePolicy s # es) = s # keyStatements es"
| "keyStatements (e # es) = keyStatements es"

fun bucketStatements :: "'stack metadata_effect list \<Rightarrow> PolicyStatement list" where
  "bucketStatements [] = []"
| "bucketStatements (BucketAddToResourcePolicy s # es) = s # bucketStatements es"
| "bucketStatements (e # es) = bucketStatements es"

text \<open>The grantees of the grants on the key and the bucket that a run has made, in order.\<close>

fun grantees :: "'stack metadata_effect list \<Rightarrow> string list" where
  "grantees [] = []"
| "grantees (KeyGrantEncrypt g # es) = g # grantees es"
| "grantees (BucketGrantWrite g # es) = g # grantees es"
| "grantees (e # es) = grantees es"

text \<open>Whether some IAM role of the configuration has \<open>meta-data-read-only-access\<close> set.\<close>

definition hasReadOnlyRole :: "('acct, 'stack) MetadataServiceProps \<Rightarrow> bool" where
  "hasReadOnlyRole props =
     list_ex (\<lambda>entry. list_ex (\<lambda>r. metaDataReadOnlyAccess r = Some True)
                 (case roles (snd entry) of None \<Rightarrow> [] | Some rs \<Rightarrow> rs))
       (getIamConfigs props)"

section \<open>Invariants of the loops of step 1\<close>


text \<open>
  The invariant of the two loops of \<open>createDefaultEbsEncryptionKey\<close>: no target was allocated
  twice, and the targets recorded are the targets allocated.
\<close>

definition ebsInv :: "'stack AccountRegionEbsEncryptionKeys \<times> 'stack effect_event list \<Rightarrow> bool" where
  "ebsInv st \<longleftrightarrow> distinct (allocations (snd st)) \<and>
     (\<forall>k r. alreadyCreated (fst st) k r \<longleftrightarrow> (k, r) \<in> set (allocations (snd st)))"



section \<open>Example inputs\<close>

text \<open>
  Collaborators for the handler: the account table holds two accounts, one template location
  resolves, role assumption and the create-or-update succeed. The function runs in account
  111111111111.
\<close>

definition exampleServices :: "(string, string, string, (string \<times> string) list) services" where
  "exampleServices =
     \<lparr> loadAccounts = (\<lambda>table. Inr [''ops'', ''shared'']),
       getTemplateBody = (\<lambda>loc. if loc = ''templates/stack.json'' then Inr ''{}''
                                else Inl (Exn ''template not found'')),
       getCredentialsForAccountAndRole = (\<lambda>a r. Inr (a @ ''/'' @ r)),
       objectToCloudFormationParameters = (\<lambda>ps. ps),
       createOrUpdateStack = (\<lambda>cfn request. Inr ()),
       ownAccountId = ''111111111111'' \<rparr>"

text \<open>A request for account 222222222222 in us-east-1, with no exclusion.\<close>

definition exampleInput :: "string CreateStackInput" where
  "exampleInput =
     \<lparr> stackName = ''Bootstrap'',
       stackCapabilities = [''CAPABILITY_NAMED_IAM''],
       stackParameters = [(''Prefix'', ''ASEA-'')],
       stackTemplate = ''templates/stack.json'',
       accountId = Some ''222222222222'',
       assumeRoleName = Some ''PipelineRole'',
       region = Some ''us-east-1'',
       ignoreAccountId = None,
       ignoreRegion = None,
       parametersTableName = ''Parameters'' \<rparr>"

text \<open>
  A configuration for step 1: the accounts \<open>ops\<close> and \<open>shared\<close> have stacks, the account
  \<open>missing\<close> has none; every VPC is shared to \<open>shared\<close> (twice) and to \<open>missing\<close>.
\<close>

definition exampleProps :: "(string, unit, string \<times> string) DefaultsStep1Props" where
  "exampleProps =
     \<lparr> tryGetOrCreateAccountStack =
         (\<lambda>key r. if key = ''ops'' \<or> key = ''shared''
                   then Some (key, case r of None \<Rightarrow> ''ca-central-1'' | Some r' \<Rightarrow> r')
                   else None),
       accounts = [''ops'', ''shared''],
       getAccountConfigs =
         [(''ops'', \<lparr> enableS3PublicAccess = None \<rparr>),
          (''missing'', \<lparr> enableS3PublicAccess = Some False \<rparr>),
          (''shared'', \<lparr> enableS3PublicAccess = Some True \<rparr>)],
       getVpcConfigs =
         [\<lparr> accountKey = ''missing'', vpcConfig = \<lparr> vpcRegion = ''us-east-1'', vpcRest = () \<rparr>,
            ouKey = None \<rparr>,
          \<lparr> accountKey = ''ops'', vpcConfig = \<lparr> vpcRegion = ''us-east-1'', vpcRest = () \<rparr>,
            ouKey = Some ''core'' \<rparr>],
       getVpcSharedAccountKeys = (\<lambda>accts vpc ou. [''shared'', ''missing'', ''shared'']),
       createEncryptionKeyName = (\<lambda>name. ''ASEA-'' @ name) \<rparr>"


text \<open>
  Three custom resources for one stack: two directly under the stack, one under another
  construct, with two different roles.
\<close>

definition exampleRequests :: "(path \<times> string \<times> Ec2AcceptVpcEndpointConnectionProps) list" where
  "exampleRequests =
     [([], ''AcceptA'',
         \<lparr> serviceId = ''vpce-svc-1'', endpoints = [''vpce-a''], roleArn = ''arn:role/one'' \<rparr>),
      ([''Endpoints''], ''AcceptB'',
         \<lparr> serviceId = ''vpce-svc-2'', endpoints = [''vpce-b''], roleArn = ''arn:role/two'' \<rparr>),
      ([], ''AcceptC'',
         \<lparr> serviceId = ''vpce-svc-3'', endpoints = [], roleArn = ''arn:role/one'' \<rparr>)]"

text \<open>
  Three metadata configurations, with the key and the bucket in the stack of the account
  \<open>log\<close> and the Lambda function in the stack of the account \<open>management\<close>: in the first the
  role \<open>Auditor\<close> of account \<open>security\<close> has read-only access to the metadata, in the second
  no role has, in the third two roles of \<open>security\<close> have.
\<close>

definition exampleMetadataProps :: "(string, string \<times> string) MetadataServiceProps" where
  "exampleMetadataProps =
     \<lparr> acceleratorPrefix = ''ASEA-'',
       metadataAccounts = [''management'', ''log'', ''security'', ''ops''],
       managementAccount = ''management'',
       logAccount = ''log'',
       logRegion = ''ca-central-1'',
       getIamConfigs =
         [(''ops'', \<lparr> roles = None \<rparr>),
          (''security'',
             \<lparr> roles = Some [\<lparr> role = ''Admin'', metaDataReadOnlyAccess = None \<rparr>,
                             \<lparr> role = ''Auditor'', metaDataReadOnlyAccess = Some True \<rparr>] \<rparr>)],
       getAccountId = (\<lambda>accts key. if key = ''security'' then Some ''333333333333'' else None),
       getOrCreateAccountStack = (\<lambda>key. Inr (key, ''ca-central-1'')),
       tryGetOrCreateStack = (\<lambda>key r. Some (key, r)),
       tryFindRoleOutput = (\<lambda>key name. Some (''arn:aws:iam::333333333333:role/'' @ name)),
       stackRegion = snd,
       organizationId = ''o-example'',
       bucketArn = ''arn:aws:s3:::metadata-bucket'' \<rparr>"

definition exampleMetadataPropsNoRole :: "(string, string \<times> string) MetadataServiceProps" where
  "exampleMetadataPropsNoRole =
     exampleMetadataProps
       \<lparr> getIamConfigs :=
           [(''ops'', \<lparr> roles = None \<rparr>),
            (''security'',
               \<lparr> roles = Some [\<lparr> role = ''Admin'', metaDataReadOnlyAccess = Some False \<rparr>] \<rparr>)] \<rparr>"

definition exampleMetadataPropsTwoRoles :: "(string, string \<times> string) MetadataServiceProps" where
  "exampleMetadataPropsTwoRoles =
     exampleMetadataProps
       \<lparr> getIamConfigs :=
           [(''security'',
               \<lparr> roles = Some [\<lparr> role = ''Admin'', metaDataReadOnlyAccess = Some True \<rparr>,
                               \<lparr> role = ''Auditor'', metaDataReadOnlyAccess = Some True \<rparr>] \<rparr>)] \<rparr>"

section \<open>Properties of the upsert handler\<close>

subsection \<open>The exclusion pre-check\<close>

lemma excluded_iff:
  "excluded input \<longleftrightarrow>
     truthy (ignoreAccountId input) \<and> ignoreAccountId input = accountId input \<and>
     (truthy (ignoreRegion input) \<longrightarrow> ignoreRegion input = region input)"
  by (auto simp: excluded_def)

lemma handler_excluded: "excluded input \<Longrightarrow> handler svc input = ([], Inr ())"
  by (simp add: handler_def)

lemma handler_proceeds:
  "\<not> excluded input \<Longrightarrow>
   \<exists>cs res. handler svc input = (LoadAccounts (parametersTableName input) # cs, res)"
  by (auto simp: handler_def split: sum.splits option.splits prod.splits)

lemma handler_skip_iff: "handler svc input = ([], Inr ()) \<longleftrightarrow> excluded input"
proof
  assume skipped: "handler svc input = ([], Inr ())"
  show "excluded input"
  proof (rule ccontr)
    assume "\<not> excluded input"
    then obtain cs res where
      "handler svc input = (LoadAccounts (parametersTableName input) # cs, res)"
      using handler_proceeds by blast
    with skipped show False by simp
  qed
next
  assume "excluded input"
  then show "handler svc input = ([], Inr ())" by (rule handler_excluded)
qed

text \<open>
  An ignore setting that is the empty string is falsy and excludes nothing, whatever the
  account of the request.
\<close>

lemma empty_ignoreAccountId_excludes_nothing:
  "ignoreAccountId input = Some [] \<Longrightarrow> \<not> excluded input"
  by (simp add: excluded_def truthy_def)

text \<open>
  Claim C2, the exclusion law. A setting is set when it is truthy (present and not the empty
  string), and the handler skips when it returns without a call. If \<open>ignoreAccountId\<close> is set
  and equals \<open>accountId\<close> and no \<open>ignoreRegion\<close> is set, the handler skips, whatever the region
  is. If both settings are set, the handler skips exactly when the account and the region
  both match; in particular an account match with a region setting that does not match the
  region never skips.
\<close>

theorem exclusion_law:
  "(truthy (ignoreAccountId input) \<and> ignoreAccountId input = accountId input
      \<and> \<not> truthy (ignoreRegion input) \<longrightarrow> handler svc input = ([], Inr ()))
   \<and> (truthy (ignoreAccountId input) \<and> truthy (ignoreRegion input) \<longrightarrow>
        (handler svc input = ([], Inr ()) \<longleftrightarrow>
           ignoreAccountId input = accountId input \<and> ignoreRegion input = region input))
   \<and> (truthy (ignoreAccountId input) \<and> ignoreAccountId input = accountId input
        \<and> truthy (ignoreRegion input) \<and> ignoreRegion input \<noteq> region input \<longrightarrow>
        handler svc input \<noteq> ([], Inr ()))"
  unfolding handler_skip_iff by (auto simp: excluded_iff)

theorem exclusion_law_witness:
  "handler exampleServices
     (exampleInput\<lparr>ignoreAccountId := Some ''222222222222'', region := Some ''eu-west-1''\<rparr>)
     = ([], Inr ())
   \<and> handler exampleServices
       (exampleInput\<lparr>ignoreAccountId := Some ''222222222222'', ignoreRegion := Some ''us-east-1''\<rparr>)
       = ([], Inr ())
   \<and> handler exampleServices
       (exampleInput\<lparr>ignoreAccountId := Some ''222222222222'', ignoreRegion := Some ''eu-west-1''\<rparr>)
       \<noteq> ([], Inr ())"
proof -
  let ?any = "exampleInput\<lparr>ignoreAccountId := Some ''222222222222'', region := Some ''eu-west-1''\<rparr>"
  let ?both = "exampleInput\<lparr>ignoreAccountId := Some ''222222222222'', ignoreRegion := Some ''us-east-1''\<rparr>"
  let ?other = "exampleInput\<lparr>ignoreAccountId := Some ''222222222222'', ignoreRegion := Some ''eu-west-1''\<rparr>"
  have "handler exampleServices ?any = ([], Inr ())"
    using exclusion_law[of ?any exampleServices] by (simp add: exampleInput_def truthy_def)
  moreover have "handler exampleServices ?both = ([], Inr ())"
    using exclusion_law[of ?both exampleServices] by (simp add: exampleInput_def truthy_def)
  moreover have "handler exampleServices ?other \<noteq> ([], Inr ())"
    using exclusion_law[of ?other exampleServices] by (simp add: exampleInput_def truthy_def)
  ultimately show ?thesis by simp
qed

text \<open>
  Claim C8, under-specified requests. A request without \<open>accountId\<close> is never skipped: the
  handler goes on to load the accounts, and when the accounts and the template load it
  submits the create-or-update (under the ambient identity, there being no account to
  delegate to) and settles as that call does. The same holds when \<open>ignoreAccountId\<close> equals
  \<open>accountId\<close> and \<open>ignoreRegion\<close> is set but the request has no region: when the awaited
  calls resolve, the create-or-update is submitted, with delegated credentials if a role name
  is set. Whenever the handler skips, \<open>ignoreAccountId\<close> is set and equal to \<open>accountId\<close>, and
  \<open>ignoreRegion\<close>, when set, is equal to \<open>region\<close>.
\<close>

theorem underspecified_request_proceeds:
  "(accountId input = None \<longrightarrow>
      (\<exists>calls res. handler svc input = (LoadAccounts (parametersTableName input) # calls, res)))
   \<and> (accountId input = None
        \<and> loadAccounts svc (parametersTableName input) = Inr accts
        \<and> getTemplateBody svc (stackTemplate input) = Inr body \<longrightarrow>
      handler svc input =
        ([LoadAccounts (parametersTableName input), GetTemplateBody (stackTemplate input),
          CreateOrUpdateStack (CloudFormation None None) (upsertRequest svc input body)],
         createOrUpdateStack svc (CloudFormation None None) (upsertRequest svc input body)))
   \<and> (truthy (ignoreAccountId input) \<and> ignoreAccountId input = accountId input
        \<and> truthy (ignoreRegion input) \<and> region input = None \<longrightarrow>
      (\<exists>calls res. handler svc input = (LoadAccounts (parametersTableName input) # calls, res)))
   \<and> (truthy (ignoreAccountId input) \<and> ignoreAccountId input = accountId input
        \<and> truthy (ignoreRegion input) \<and> region input = None
        \<and> loadAccounts svc (parametersTableName input) = Inr accts
        \<and> getTemplateBody svc (stackTemplate input) = Inr body
        \<and> (truthy (assumeRoleName input) \<longrightarrow>
              getCredentialsForAccountAndRole svc (the (accountId input)) (the (assumeRoleName input))
                = Inr credentials) \<longrightarrow>
      handler svc input =
        ([LoadAccounts (parametersTableName input), GetTemplateBody (stackTemplate input)] @
         (if truthy (assumeRoleName input)
          then [GetCredentialsForAccountAndRole (the (accountId input)) (the (assumeRoleName input)),
                CreateOrUpdateStack (CloudFormation (Some credentials) None)
                  (upsertRequest svc input body)]
          else [CreateOrUpdateStack (CloudFormation None None) (upsertRequest svc input body)]),
         createOrUpdateStack svc
           (if truthy (assumeRoleName input) then CloudFormation (Some credentials) None
            else CloudFormation None None)
           (upsertRequest svc input body)))
   \<and> (handler svc input = ([], Inr ()) \<longrightarrow>
        truthy (ignoreAccountId input) \<and> ignoreAccountId input = accountId input
        \<and> (truthy (ignoreRegion input) \<longrightarrow> ignoreRegion input = region input))"
proof -
  have absent_open: "\<not> excluded input" if "accountId input = None"
    using that by (auto simp: excluded_iff truthy_def split: option.splits)
  have no_region_open: "\<not> excluded input"
    if "truthy (ignoreAccountId input) \<and> ignoreAccountId input = accountId input
        \<and> truthy (ignoreRegion input) \<and> region input = None"
    using that by (auto simp: excluded_iff truthy_def split: option.splits)
  have absent: "\<exists>calls res. handler svc input = (LoadAccounts (parametersTableName input) # calls, res)"
    if "accountId input = None"
    using absent_open[OF that] by (rule handler_proceeds)
  have absent_deployed: "handler svc input =
        ([LoadAccounts (parametersTableName input), GetTemplateBody (stackTemplate input),
          CreateOrUpdateStack (CloudFormation None None) (upsertRequest svc input body)],
         createOrUpdateStack svc (CloudFormation None None) (upsertRequest svc input body))"
    if "accountId input = None
        \<and> loadAccounts svc (parametersTableName input) = Inr accts
        \<and> getTemplateBody svc (stackTemplate input) = Inr body"
  proof -
    from that have "\<not> excluded input" by (simp add: absent_open)
    with that show ?thesis by (simp add: handler_def)
  qed
  have no_region: "\<exists>calls res. handler svc input = (LoadAccounts (parametersTableName input) # calls, res)"
    if "truthy (ignoreAccountId input) \<and> ignoreAccountId input = accountId input
        \<and> truthy (ignoreRegion input) \<and> region input = None"
    using no_region_open[OF that] by (rule handler_proceeds)
  have no_region_deployed: "handler svc input =
        ([LoadAccounts (parametersTableName input), GetTemplateBody (stackTemplate input)] @
         (if truthy (assumeRoleName input)
          then [GetCredentialsForAccountAndRole (the (accountId input)) (the (assumeRoleName input)),
                CreateOrUpdateStack (CloudFormation (Some credentials) None)
                  (upsertRequest svc input body)]
          else [CreateOrUpdateStack (CloudFormation None None) (upsertRequest svc input body)]),
         createOrUpdateStack svc
           (if truthy (assumeRoleName input) then CloudFormation (Some credentials) None
            else CloudFormation None None)
           (upsertRequest svc input body))"
    if h: "truthy (ignoreAccountId input) \<and> ignoreAccountId input = accountId input
        \<and> truthy (ignoreRegion input) \<and> region input = None
        \<and> loadAccounts svc (parametersTableName input) = Inr accts
        \<and> getTemplateBody svc (stackTemplate input) = Inr body
        \<and> (truthy (assumeRoleName input) \<longrightarrow>
              getCredentialsForAccountAndRole svc (the (accountId input)) (the (assumeRoleName input))
                = Inr credentials)"
  proof -
    from h have open': "\<not> excluded input"
      by (auto simp: excluded_iff truthy_def split: option.splits)
    from h have acct: "truthy (accountId input)" by auto
    show ?thesis
    proof (cases "truthy (assumeRoleName input)")
      case True
      with h acct open' show ?thesis
        by (auto simp: handler_def truthy_def split: option.splits)
    next
      case False
      with h acct open' show ?thesis
        by (auto simp: handler_def truthy_def split: option.splits)
    qed
  qed
  have exact: "truthy (ignoreAccountId input) \<and> ignoreAccountId input = accountId input
        \<and> (truthy (ignoreRegion input) \<longrightarrow> ignoreRegion input = region input)"
    if "handler svc input = ([], Inr ())"
  proof -
    from that have "excluded input" by (simp add: handler_skip_iff)
    then show ?thesis unfolding excluded_iff .
  qed
  from absent absent_deployed no_region no_region_deployed exact show ?thesis by blast
qed

theorem underspecified_request_proceeds_witness:
  "handler exampleServices
      (exampleInput\<lparr>accountId := None, ignoreAccountId := Some ''222222222222''\<rparr>)
     = ([LoadAccounts ''Parameters'', GetTemplateBody ''templates/stack.json'',
         CreateOrUpdateStack (CloudFormation None None)
           (upsertRequest exampleServices
              (exampleInput\<lparr>accountId := None, ignoreAccountId := Some ''222222222222''\<rparr>) ''{}'')],
        Inr ())
   \<and> handler exampleServices
        (exampleInput\<lparr>ignoreAccountId := Some ''222222222222'',
                       ignoreRegion := Some ''us-east-1'', region := None\<rparr>)
     = ([LoadAccounts ''Parameters'', GetTemplateBody ''templates/stack.json'',
         GetCredentialsForAccountAndRole ''222222222222'' ''PipelineRole'',
         CreateOrUpdateStack (CloudFormation (Some ''222222222222/PipelineRole'') None)
           (upsertRequest exampleServices
              (exampleInput\<lparr>ignoreAccountId := Some ''222222222222'',
                             ignoreRegion := Some ''us-east-1'', region := None\<rparr>) ''{}'')],
        Inr ())
   \<and> truthy (ignoreAccountId (exampleInput\<lparr>ignoreAccountId := Some ''222222222222''\<rparr>))
   \<and> ignoreAccountId (exampleInput\<lparr>ignoreAccountId := Some ''222222222222''\<rparr>)
       = accountId (exampleInput\<lparr>ignoreAccountId := Some ''222222222222''\<rparr>)"
proof -
  let ?noAccount = "exampleInput\<lparr>accountId := None, ignoreAccountId := Some ''222222222222''\<rparr>"
  let ?noRegion = "exampleInput\<lparr>ignoreAccountId := Some ''222222222222'',
                                 ignoreRegion := Some ''us-east-1'', region := None\<rparr>"
  let ?skipped = "exampleInput\<lparr>ignoreAccountId := Some ''222222222222''\<rparr>"
  have 1: "handler exampleServices ?noAccount
     = ([LoadAccounts ''Parameters'', GetTemplateBody ''templates/stack.json'',
         CreateOrUpdateStack (CloudFormation None None)
           (upsertRequest exampleServices ?noAccount ''{}'')],
        Inr ())"
    using underspecified_request_proceeds[where input = ?noAccount and svc = exampleServices
        and accts = "[''ops'', ''shared'']" and body = "''{}''"]
    by (simp add: exampleInput_def exampleServices_def)
  have 2: "handler exampleServices ?noRegion
     = ([LoadAccounts ''Parameters'', GetTemplateBody ''templates/stack.json'',
         GetCredentialsForAccountAndRole ''222222222222'' ''PipelineRole'',
         CreateOrUpdateStack (CloudFormation (Some ''222222222222/PipelineRole'') None)
           (upsertRequest exampleServices ?noRegion ''{}'')],
        Inr ())"
    using underspecified_request_proceeds[where input = ?noRegion and svc = exampleServices
        and accts = "[''ops'', ''shared'']" and body = "''{}''"
        and credentials = "''222222222222/PipelineRole''"]
    by (simp add: exampleInput_def exampleServices_def truthy_def)
  have "handler exampleServices ?skipped = ([], Inr ())"
    by (simp add: handler_def excluded_def exampleInput_def truthy_def)
  then have 3: "truthy (ignoreAccountId ?skipped) \<and> ignoreAccountId ?skipped = accountId ?skipped"
    using underspecified_request_proceeds[of ?skipped exampleServices] by blast
  from 1 2 3 show ?thesis by blast
qed

subsection \<open>What a skipped request does\<close>

text \<open>
  Claim C4, as amended. When the exclusion pre-check matches, the handler makes no call at
  all (it loads no accounts, resolves no template, acquires no credentials and submits nothing)
  and its promise resolves: the skip is not an error. It resolves with \<open>undefined\<close>, as it
  does after a create-or-update that succeeded.
\<close>

theorem skip_is_silent:
  "excluded input \<longrightarrow>
     snd (handler svc input) = Inr ()
     \<and> (\<forall>table. LoadAccounts table \<notin> set (fst (handler svc input)))
     \<and> (\<forall>loc. GetTemplateBody loc \<notin> set (fst (handler svc input)))
     \<and> (\<forall>a r. GetCredentialsForAccountAndRole a r \<notin> set (fst (handler svc input)))
     \<and> (\<forall>cfn request. CreateOrUpdateStack cfn request \<notin> set (fst (handler svc input)))"
  by (simp add: handler_excluded)

theorem skip_is_silent_witness:
  "excluded (exampleInput\<lparr>ignoreAccountId := Some ''222222222222''\<rparr>)
   \<and> snd (handler exampleServices (exampleInput\<lparr>ignoreAccountId := Some ''222222222222''\<rparr>)) = Inr ()
   \<and> LoadAccounts ''Parameters''
        \<notin> set (fst (handler exampleServices (exampleInput\<lparr>ignoreAccountId := Some ''222222222222''\<rparr>)))
   \<and> GetTemplateBody ''templates/stack.json''
        \<notin> set (fst (handler exampleServices (exampleInput\<lparr>ignoreAccountId := Some ''222222222222''\<rparr>)))
   \<and> GetCredentialsForAccountAndRole ''222222222222'' ''PipelineRole''
        \<notin> set (fst (handler exampleServices (exampleInput\<lparr>ignoreAccountId := Some ''222222222222''\<rparr>)))"
proof -
  have ex: "excluded (exampleInput\<lparr>ignoreAccountId := Some ''222222222222''\<rparr>)"
    by (simp add: excluded_def exampleInput_def truthy_def)
  with skip_is_silent[of "exampleInput\<lparr>ignoreAccountId := Some ''222222222222''\<rparr>" exampleServices]
  show ?thesis by blast
qed

text \<open>
  The claim as stated has the handler report the outcome Skipped for the skipped target. The
  handler reports no outcome: what it returns for an excluded request is what it returns for
  a request that it deployed.
\<close>

theorem skipped_outcome_counterexample:
  "excluded (exampleInput\<lparr>ignoreAccountId := Some ''222222222222''\<rparr>)
   \<and> \<not> excluded exampleInput
   \<and> snd (handler exampleServices (exampleInput\<lparr>ignoreAccountId := Some ''222222222222''\<rparr>))
       = snd (handler exampleServices exampleInput)
   \<and> fst (handler exampleServices exampleInput) \<noteq> []"
  by (simp add: handler_def excluded_def exampleInput_def exampleServices_def truthy_def)

subsection \<open>The credential source\<close>

text \<open>
  Claim C5, as amended. For a request that is not excluded and whose accounts and template
  load, the handler asks for delegated credentials exactly when \<open>accountId\<close> and
  \<open>assumeRoleName\<close> are both set, with that account and role, and then binds the client to
  these credentials and the region of the request; in every other case it makes no delegation
  call and constructs the client without arguments. No run of the handler asks for
  credentials unless both fields are set. The handler does not compare the account of the
  request with the account it runs in.
\<close>

theorem credential_source:
  "(\<not> excluded input \<and> loadAccounts svc (parametersTableName input) = Inr accts
      \<and> getTemplateBody svc (stackTemplate input) = Inr body \<longrightarrow>
      fst (handler svc input) =
        [LoadAccounts (parametersTableName input), GetTemplateBody (stackTemplate input)] @
        (if truthy (accountId input) \<and> truthy (assumeRoleName input)
         then GetCredentialsForAccountAndRole (the (accountId input)) (the (assumeRoleName input)) #
              (case getCredentialsForAccountAndRole svc (the (accountId input))
                      (the (assumeRoleName input)) of
                 Inl e \<Rightarrow> []
               | Inr credentials \<Rightarrow>
                   [CreateOrUpdateStack (CloudFormation (Some credentials) (region input))
                      (upsertRequest svc input body)])
         else [CreateOrUpdateStack (CloudFormation None None) (upsertRequest svc input body)]))
   \<and> (GetCredentialsForAccountAndRole a r \<in> set (fst (handler svc input)) \<longrightarrow>
        accountId input = Some a \<and> assumeRoleName input = Some r \<and> a \<noteq> [] \<and> r \<noteq> [])"
  by (auto simp: handler_def truthy_def split: sum.splits option.splits)

theorem credential_source_witness:
  "fst (handler exampleServices exampleInput) =
     [LoadAccounts ''Parameters'', GetTemplateBody ''templates/stack.json'',
      GetCredentialsForAccountAndRole ''222222222222'' ''PipelineRole'',
      CreateOrUpdateStack (CloudFormation (Some ''222222222222/PipelineRole'') (Some ''us-east-1''))
        (upsertRequest exampleServices exampleInput ''{}'')]
   \<and> fst (handler exampleServices (exampleInput\<lparr>assumeRoleName := None\<rparr>)) =
     [LoadAccounts ''Parameters'', GetTemplateBody ''templates/stack.json'',
      CreateOrUpdateStack (CloudFormation None None)
        (upsertRequest exampleServices (exampleInput\<lparr>assumeRoleName := None\<rparr>) ''{}'')]
   \<and> accountId exampleInput = Some ''222222222222''
   \<and> assumeRoleName exampleInput = Some ''PipelineRole''"
proof -
  let ?ambient = "exampleInput\<lparr>assumeRoleName := None\<rparr>"
  have a: "\<not> excluded exampleInput" "\<not> excluded ?ambient"
    by (simp_all add: excluded_def exampleInput_def truthy_def)
  have b: "loadAccounts exampleServices (parametersTableName exampleInput) = Inr [''ops'', ''shared'']"
    "loadAccounts exampleServices (parametersTableName ?ambient) = Inr [''ops'', ''shared'']"
    by (simp_all add: exampleServices_def)
  have c: "getTemplateBody exampleServices (stackTemplate exampleInput) = Inr ''{}''"
    "getTemplateBody exampleServices (stackTemplate ?ambient) = Inr ''{}''"
    by (simp_all add: exampleServices_def exampleInput_def)
  from credential_source[of exampleInput exampleServices "[''ops'', ''shared'']" "''{}''",
      THEN conjunct1] a(1) b(1) c(1)
  have 1: "fst (handler exampleServices exampleInput) =
     [LoadAccounts ''Parameters'', GetTemplateBody ''templates/stack.json'',
      GetCredentialsForAccountAndRole ''222222222222'' ''PipelineRole'',
      CreateOrUpdateStack (CloudFormation (Some ''222222222222/PipelineRole'') (Some ''us-east-1''))
        (upsertRequest exampleServices exampleInput ''{}'')]"
    by (simp add: exampleInput_def exampleServices_def truthy_def)
  from credential_source[of ?ambient exampleServices "[''ops'', ''shared'']" "''{}''",
      THEN conjunct1] a(2) b(2) c(2)
  have 2: "fst (handler exampleServices ?ambient) =
     [LoadAccounts ''Parameters'', GetTemplateBody ''templates/stack.json'',
      CreateOrUpdateStack (CloudFormation None None)
        (upsertRequest exampleServices ?ambient ''{}'')]"
    by (simp add: exampleInput_def truthy_def)
  from 1 have "GetCredentialsForAccountAndRole ''222222222222'' ''PipelineRole''
      \<in> set (fst (handler exampleServices exampleInput))" by simp
  with credential_source[of exampleInput exampleServices "[]" "[]" "''222222222222''" "''PipelineRole''",
      THEN conjunct2]
  have 3: "accountId exampleInput = Some ''222222222222''
      \<and> assumeRoleName exampleInput = Some ''PipelineRole''" by simp
  from 1 2 3 show ?thesis by simp
qed

text \<open>
  The claim as stated excludes delegation when the target account is the account of the
  orchestrator. A request that names that account and a role is delegated like any other.
\<close>

theorem own_account_counterexample:
  "accountId (exampleInput\<lparr>accountId := Some ''111111111111''\<rparr>) = Some (ownAccountId exampleServices)
   \<and> GetCredentialsForAccountAndRole (ownAccountId exampleServices) ''PipelineRole''
        \<in> set (fst (handler exampleServices (exampleInput\<lparr>accountId := Some ''111111111111''\<rparr>)))"
  by (simp add: handler_def excluded_def exampleInput_def exampleServices_def truthy_def)

subsection \<open>Template resolution\<close>

text \<open>
  Claim C6. When the template location does not resolve, the handler rejects with the error
  of the resolution, having loaded the accounts and asked for the template once: it asks for
  no credentials, submits no create-or-update, tries nothing else, and does not resolve as a
  skipped request does. Whenever a run of the handler submits a create-or-update, the
  template was resolved earlier in that run and the request carries the resolved body.
\<close>

theorem template_failure_is_fatal:
  "(\<not> excluded input \<and> loadAccounts svc (parametersTableName input) = Inr accts
      \<and> getTemplateBody svc (stackTemplate input) = Inl e \<longrightarrow>
      handler svc input =
        ([LoadAccounts (parametersTableName input), GetTemplateBody (stackTemplate input)], Inl e))
   \<and> (CreateOrUpdateStack cfn request \<in> set (fst (handler svc input)) \<longrightarrow>
        (\<exists>body before between.
           getTemplateBody svc (stackTemplate input) = Inr body \<and> TemplateBody request = body
           \<and> fst (handler svc input) =
               before @ [GetTemplateBody (stackTemplate input)] @ between
                 @ [CreateOrUpdateStack cfn request]))"
proof (intro conjI impI)
  assume "\<not> excluded input \<and> loadAccounts svc (parametersTableName input) = Inr accts
      \<and> getTemplateBody svc (stackTemplate input) = Inl e"
  then show "handler svc input =
        ([LoadAccounts (parametersTableName input), GetTemplateBody (stackTemplate input)], Inl e)"
    by (simp add: handler_def)
next
  assume sub: "CreateOrUpdateStack cfn request \<in> set (fst (handler svc input))"
  then obtain body where body: "getTemplateBody svc (stackTemplate input) = Inr body"
    and req: "request = upsertRequest svc input body"
    and tr: "fst (handler svc input) =
        [LoadAccounts (parametersTableName input)] @ [GetTemplateBody (stackTemplate input)] @
        (if truthy (accountId input) \<and> truthy (assumeRoleName input)
         then [GetCredentialsForAccountAndRole (the (accountId input)) (the (assumeRoleName input))]
         else []) @ [CreateOrUpdateStack cfn request]"
    by (auto simp: handler_def truthy_def split: sum.splits option.splits if_splits)
  from req have "TemplateBody request = body" by (simp add: upsertRequest_def)
  with body tr show "\<exists>body before between.
           getTemplateBody svc (stackTemplate input) = Inr body \<and> TemplateBody request = body
           \<and> fst (handler svc input) =
               before @ [GetTemplateBody (stackTemplate input)] @ between
                 @ [CreateOrUpdateStack cfn request]"
    by blast
qed

theorem template_failure_is_fatal_witness:
  "handler exampleServices (exampleInput\<lparr>stackTemplate := ''templates/absent.json''\<rparr>) =
     ([LoadAccounts ''Parameters'', GetTemplateBody ''templates/absent.json''],
      Inl (Exn ''template not found''))
   \<and> (\<exists>body before between.
        getTemplateBody exampleServices (stackTemplate exampleInput) = Inr body
        \<and> TemplateBody (upsertRequest exampleServices exampleInput ''{}'') = body
        \<and> fst (handler exampleServices exampleInput) =
            before @ [GetTemplateBody (stackTemplate exampleInput)] @ between
              @ [CreateOrUpdateStack
                   (CloudFormation (Some ''222222222222/PipelineRole'') (Some ''us-east-1''))
                   (upsertRequest exampleServices exampleInput ''{}'')])"
proof -
  let ?absent = "exampleInput\<lparr>stackTemplate := ''templates/absent.json''\<rparr>"
  have "\<not> excluded ?absent"
    by (simp add: excluded_def exampleInput_def truthy_def)
  moreover have "loadAccounts exampleServices (parametersTableName ?absent) = Inr [''ops'', ''shared'']"
    by (simp add: exampleServices_def)
  moreover have "getTemplateBody exampleServices (stackTemplate ?absent) = Inl (Exn ''template not found'')"
    by (simp add: exampleServices_def)
  ultimately have 1: "handler exampleServices ?absent =
     ([LoadAccounts ''Parameters'', GetTemplateBody ''templates/absent.json''],
      Inl (Exn ''template not found''))"
    using template_failure_is_fatal[of ?absent exampleServices "[''ops'', ''shared'']"
        "Exn ''template not found''", THEN conjunct1]
    by (simp add: exampleInput_def)
  have "CreateOrUpdateStack
          (CloudFormation (Some ''222222222222/PipelineRole'') (Some ''us-east-1''))
          (upsertRequest exampleServices exampleInput ''{}'')
        \<in> set (fst (handler exampleServices exampleInput))"
    by (simp add: handler_def excluded_def exampleInput_def exampleServices_def truthy_def)
  with template_failure_is_fatal[of exampleInput exampleServices "[]" "Exn []"
      "CloudFormation (Some ''222222222222/PipelineRole'') (Some ''us-east-1'')"
      "upsertRequest exampleServices exampleInput ''{}''", THEN conjunct2]
  have 2: "\<exists>body before between.
        getTemplateBody exampleServices (stackTemplate exampleInput) = Inr body
        \<and> TemplateBody (upsertRequest exampleServices exampleInput ''{}'') = body
        \<and> fst (handler exampleServices exampleInput) =
            before @ [GetTemplateBody (stackTemplate exampleInput)] @ between
              @ [CreateOrUpdateStack
                   (CloudFormation (Some ''222222222222/PipelineRole'') (Some ''us-east-1''))
                   (upsertRequest exampleServices exampleInput ''{}'')]"
    by blast
  from 1 2 show ?thesis by blast
qed

section \<open>Properties of step 1\<close>

subsection \<open>The account keys of a VPC configuration\<close>

lemma arrayFromSet_fold_set:
  "set (fold (\<lambda>x acc. if x \<in> set acc then acc else acc @ [x]) xs acc) = set acc \<union> set xs"
  by (induction xs arbitrary: acc) auto

lemma arrayFromSet_fold_distinct:
  "distinct acc \<Longrightarrow> distinct (fold (\<lambda>x acc. if x \<in> set acc then acc else acc @ [x]) xs acc)"
  by (induction xs arbitrary: acc) auto

lemma set_arrayFromSet: "set (arrayFromSet xs) = set xs"
  by (simp add: arrayFromSet_def arrayFromSet_fold_set)

lemma distinct_arrayFromSet: "distinct (arrayFromSet xs)"
  by (simp add: arrayFromSet_def arrayFromSet_fold_distinct)

text \<open>
  Claim C3. For every account list and VPC configuration, the account keys computed at lines
  373 to 375 are the owning account key together with the keys the sharing predicate
  returns, and no key occurs twice among them, however often the predicate returns it.
\<close>

theorem accountKeys_union_dedup:
  "set (accountKeys props vpc) =
     insert (accountKey vpc)
       (set (getVpcSharedAccountKeys props (accounts props) (vpcConfig vpc) (ouKey vpc)))
   \<and> distinct (accountKeys props vpc)"
  by (simp add: accountKeys_def Let_def set_arrayFromSet distinct_arrayFromSet)

theorem accountKeys_union_dedup_witness:
  "set (accountKeys exampleProps (hd (getVpcConfigs exampleProps))) = {''missing'', ''shared''}
   \<and> distinct (accountKeys exampleProps (hd (getVpcConfigs exampleProps)))"
  using accountKeys_union_dedup[of exampleProps "hd (getVpcConfigs exampleProps)"]
  by (simp add: exampleProps_def insert_commute)

subsection \<open>One key for each target\<close>

lemma allocations_append: "allocations (xs @ ys) = allocations xs @ allocations ys"
  by (induction xs rule: allocations.induct) auto

lemma alreadyCreated_recordKey:
  "alreadyCreated (recordKey keys k r key) k' r' \<longleftrightarrow> (k' = k \<and> r' = r) \<or> alreadyCreated keys k' r'"
  by (auto simp: alreadyCreated_def recordKey_def split: option.splits)

lemma ebsKeyStep_inv: "ebsInv st \<Longrightarrow> ebsInv (ebsKeyStep props r k st)"
  by (cases st)
     (auto simp: ebsInv_def ebsKeyStep_def Let_def allocations_append alreadyCreated_recordKey
           split: option.splits)

lemma ebsVpcStep_fold_inv: "ebsInv st \<Longrightarrow> ebsInv (fold (ebsKeyStep props r) ks st)"
  by (induction ks arbitrary: st) (auto simp: ebsKeyStep_inv)

lemma ebsVpcStep_inv: "ebsInv st \<Longrightarrow> ebsInv (ebsVpcStep props vpc st)"
  by (simp add: ebsVpcStep_def ebsVpcStep_fold_inv)

lemma ebs_fold_inv: "ebsInv st \<Longrightarrow> ebsInv (fold (ebsVpcStep props) vpcs st)"
  by (induction vpcs arbitrary: st) (auto simp: ebsVpcStep_inv)

lemma ebsInv_init: "ebsInv (Map.empty, [])"
  by (simp add: ebsInv_def alreadyCreated_def)

lemma ebsKeyStep_allocations:
  "allocations (snd (ebsKeyStep props r k (keys, out))) =
     allocations out @
       (if \<not> alreadyCreated keys k r \<and> tryGetOrCreateAccountStack props k (Some r) \<noteq> None
        then [(k, r)] else [])"
  by (auto simp: ebsKeyStep_def Let_def allocations_append split: option.splits)

lemma ebsKeyStep_recorded:
  "alreadyCreated (fst (ebsKeyStep props r k (keys, out))) k r \<longleftrightarrow>
     alreadyCreated keys k r \<or> tryGetOrCreateAccountStack props k (Some r) \<noteq> None"
  by (auto simp: ebsKeyStep_def Let_def alreadyCreated_recordKey split: option.splits)

text \<open>
  Claim C1. For every configuration and account list, no target (account key and region) is
  allocated a key twice in a run of \<open>createDefaultEbsEncryptionKey\<close>, and the targets recorded
  in the result are the targets a key was allocated for. One iteration allocates a key for
  its target only when the target is not recorded yet (and a stack can be obtained for it),
  and after such an iteration the target is recorded, so that a later request for it is
  skipped.
\<close>

theorem one_key_per_target:
  "distinct (allocations (snd (createDefaultEbsEncryptionKey props)))
   \<and> (\<forall>k r. alreadyCreated (fst (createDefaultEbsEncryptionKey props)) k r
          \<longleftrightarrow> (k, r) \<in> set (allocations (snd (createDefaultEbsEncryptionKey props))))
   \<and> allocations (snd (ebsKeyStep props region' localAccountKey (keys, out))) =
       allocations out @
         (if \<not> alreadyCreated keys localAccountKey region'
             \<and> tryGetOrCreateAccountStack props localAccountKey (Some region') \<noteq> None
          then [(localAccountKey, region')] else [])
   \<and> (alreadyCreated (fst (ebsKeyStep props region' localAccountKey (keys, out)))
         localAccountKey region' \<longleftrightarrow>
       alreadyCreated keys localAccountKey region'
         \<or> tryGetOrCreateAccountStack props localAccountKey (Some region') \<noteq> None)"
  using ebs_fold_inv[OF ebsInv_init, of props "getVpcConfigs props"]
    ebsKeyStep_allocations[of props region' localAccountKey keys out]
    ebsKeyStep_recorded[of props region' localAccountKey keys out]
  by (simp add: createDefaultEbsEncryptionKey_def ebsInv_def)

theorem one_key_per_target_witness:
  "distinct (allocations (snd (createDefaultEbsEncryptionKey exampleProps)))
   \<and> alreadyCreated (fst (createDefaultEbsEncryptionKey exampleProps)) ''shared'' ''us-east-1''
   \<and> \<not> alreadyCreated (fst (createDefaultEbsEncryptionKey exampleProps)) ''missing'' ''us-east-1''
   \<and> allocations (snd (ebsKeyStep exampleProps ''us-east-1'' ''ops'' (Map.empty, [])))
       = [(''ops'', ''us-east-1'')]
   \<and> alreadyCreated (fst (ebsKeyStep exampleProps ''us-east-1'' ''ops'' (Map.empty, [])))
       ''ops'' ''us-east-1''"
proof -
  have "allocations (snd (createDefaultEbsEncryptionKey exampleProps)) =
      [(''shared'', ''us-east-1''), (''ops'', ''us-east-1'')]"
    by (simp add: createDefaultEbsEncryptionKey_def ebsVpcStep_def ebsKeyStep_def accountKeys_def
          arrayFromSet_def alreadyCreated_def recordKey_def exampleProps_def Let_def)
  moreover have "\<not> alreadyCreated Map.empty ''ops'' ''us-east-1''"
    by (simp add: alreadyCreated_def)
  moreover have "tryGetOrCreateAccountStack exampleProps ''ops'' (Some ''us-east-1'') \<noteq> None"
    by (simp add: exampleProps_def)
  ultimately show ?thesis
    using one_key_per_target[of exampleProps "''us-east-1''" "''ops''" Map.empty "[]"] by simp
qed

subsection \<open>Accounts without a stack\<close>























section \<open>Properties of the custom resource\<close>

lemma find_append:
  "find P (xs @ ys) = (case find P xs of None \<Rightarrow> find P ys | Some x \<Rightarrow> Some x)"
  by (induction xs) auto

lemma tryFindChild_append:
  "tryFindChild stack n = Some e \<Longrightarrow> tryFindChild (stack @ rest) n = Some e"
  by (simp add: tryFindChild_def find_append)

lemma tryFindChild_None_path:
  "tryFindChild stack n = None \<Longrightarrow> [n] \<notin> set (map nodePath stack)"
  by (auto simp: tryFindChild_def find_None_iff)

lemma tryFindChild_None_append:
  "tryFindChild stack n = None \<Longrightarrow> tryFindChild (stack @ rest) n = tryFindChild rest n"
  by (simp add: tryFindChild_def find_append)

lemma lambdaFunction_existing:
  "tryFindChild stack constructName = Some existing \<Longrightarrow>
   lambdaFunction lambdaDir thisRole stack = Inr (existing, stack)"
  by (simp add: lambdaFunction_def)

lemma lambdaFunction_first:
  assumes "tryFindChild stack constructName = None"
  shows "\<exists>fn. lambdaFunction lambdaDir thisRole stack = Inr (fn, stack @ [fn])
           \<and> isBackingLambda fn \<and> tryFindChild (stack @ [fn]) constructName = Some fn"
proof -
  let ?fn = "LambdaFunction [constructName]
               \<lparr> runtime = ''nodejs14.x'', code = lambdaDir, fnHandler = ''index.handler'',
                 fnRole = thisRole, timeoutMinutes = 15 \<rparr>"
  have "[constructName] \<notin> set (map nodePath stack)"
    using assms by (rule tryFindChild_None_path)
  then have "lambdaFunction lambdaDir thisRole stack = Inr (?fn, stack @ [?fn])"
    using assms by (simp add: lambdaFunction_def newConstruct_def Let_def)
  moreover have "isBackingLambda ?fn" by simp
  moreover have "tryFindChild (stack @ [?fn]) constructName = Some ?fn"
    using assms by (simp add: tryFindChild_None_append) (simp add: tryFindChild_def)
  ultimately show ?thesis by blast
qed

lemma lambdaFunction_result:
  assumes "lambdaFunction lambdaDir thisRole stack = Inr (fn, stack')"
  shows "\<exists>added. stack' = stack @ added \<and> tryFindChild stack' constructName = Some fn
           \<and> serviceTokens added = [] \<and> length (filter isBackingLambda added) \<le> 1
           \<and> (tryFindChild stack constructName \<noteq> None \<longrightarrow> added = [])"
proof (cases "tryFindChild stack constructName")
  case None
  from lambdaFunction_first[OF None, of lambdaDir thisRole] assms
  obtain f where "fn = f" "stack' = stack @ [f]" "isBackingLambda f"
      "tryFindChild (stack @ [f]) constructName = Some f" by auto
  moreover from \<open>isBackingLambda f\<close> have "serviceTokens [f] = []" by (cases f) simp_all
  ultimately show ?thesis using None by auto
next
  case (Some existing)
  with assms have "fn = existing" "stack' = stack" by (simp_all add: lambdaFunction_existing)
  with Some show ?thesis by simp
qed

lemma newConstruct_result:
  "newConstruct stack c = Inr stack' \<Longrightarrow> stack' = stack @ [c]"
  by (simp add: newConstruct_def split: if_splits)

lemma constructor_result:
  assumes "newEc2AcceptVpcEndpointConnection lambdaDir scope ident props stack = Inr stack'"
  shows "\<exists>added fn. stack' = stack @ added \<and> tryFindChild stack' constructName = Some fn
           \<and> serviceTokens added = [functionArn fn]
           \<and> length (filter isBackingLambda added) \<le> 1
           \<and> (tryFindChild stack constructName \<noteq> None \<longrightarrow> filter isBackingLambda added = [])"
proof -
  let ?self = "scope @ [ident]"
  let ?role = "?self @ [resourceType @ ''Role'']"
  from assms obtain stack1 where s1: "newConstruct stack (Ec2AcceptVpcEndpointConnection ?self) = Inr stack1"
    by (auto simp: newEc2AcceptVpcEndpointConnection_def Let_def split: sum.splits)
  from assms s1 obtain stack2 where s2: "newConstruct stack1 (RoleFromRoleArn ?role (roleArn props)) = Inr stack2"
    by (auto simp: newEc2AcceptVpcEndpointConnection_def Let_def split: sum.splits)
  from assms s1 s2 obtain fn stack3 where
    s3: "lambdaFunction lambdaDir ?role stack2 = Inr (fn, stack3)"
    and s4: "newConstruct stack3 (CustomResource (?self @ [''Resource'']) resourceType (functionArn fn) props) = Inr stack'"
    by (auto simp: newEc2AcceptVpcEndpointConnection_def Let_def split: sum.splits prod.splits)
  have e1: "stack1 = stack @ [Ec2AcceptVpcEndpointConnection ?self]"
    using s1 by (rule newConstruct_result)
  have e2: "stack2 = stack1 @ [RoleFromRoleArn ?role (roleArn props)]"
    using s2 by (rule newConstruct_result)
  from lambdaFunction_result[OF s3] obtain added3 where
    e3: "stack3 = stack2 @ added3" and found: "tryFindChild stack3 constructName = Some fn"
    and tok3: "serviceTokens added3 = []" and len3: "length (filter isBackingLambda added3) \<le> 1"
    and none3: "tryFindChild stack2 constructName \<noteq> None \<longrightarrow> added3 = []" by blast
  have e4: "stack' = stack3 @ [CustomResource (?self @ [''Resource'']) resourceType (functionArn fn) props]"
    using s4 by (rule newConstruct_result)
  let ?added = "[Ec2AcceptVpcEndpointConnection ?self, RoleFromRoleArn ?role (roleArn props)] @ added3
                 @ [CustomResource (?self @ [''Resource'']) resourceType (functionArn fn) props]"
  have sapp: "\<And>xs ys. serviceTokens (xs @ ys) = serviceTokens xs @ serviceTokens ys"
  proof -
    fix xs ys :: "construct list"
    show "serviceTokens (xs @ ys) = serviceTokens xs @ serviceTokens ys"
      by (induction xs rule: serviceTokens.induct) auto
  qed
  have "stack' = stack @ ?added" using e1 e2 e3 e4 by simp
  moreover have "tryFindChild stack' constructName = Some fn"
    using found e4 by (simp add: tryFindChild_append)
  moreover have "serviceTokens ?added = [functionArn fn]"
    using tok3 by (simp add: sapp)
  moreover have "length (filter isBackingLambda ?added) \<le> 1"
    using len3 by simp
  moreover have "tryFindChild stack constructName \<noteq> None \<longrightarrow> filter isBackingLambda ?added = []"
  proof
    assume "tryFindChild stack constructName \<noteq> None"
    then obtain e where "tryFindChild stack constructName = Some e" by auto
    then have "tryFindChild stack2 constructName = Some e"
      using e1 e2 by (simp add: tryFindChild_append)
    with none3 have "added3 = []" by simp
    then show "filter isBackingLambda ?added = []" by simp
  qed
  ultimately show ?thesis by blast
qed

lemma serviceTokens_append: "serviceTokens (xs @ ys) = serviceTokens xs @ serviceTokens ys"
  by (induction xs rule: serviceTokens.induct) auto

lemma constructAll_result:
  "constructAll lambdaDir reqs stack = Inr stack' \<Longrightarrow>
   \<exists>added. stack' = stack @ added
     \<and> length (filter isBackingLambda added) \<le> 1
     \<and> (tryFindChild stack constructName \<noteq> None \<longrightarrow> filter isBackingLambda added = [])
     \<and> (\<forall>tok \<in> set (serviceTokens added).
           \<exists>fn. tryFindChild stack' constructName = Some fn \<and> tok = functionArn fn)"
proof (induction reqs arbitrary: stack)
  case Nil
  then show ?case by simp
next
  case (Cons req reqs)
  obtain scope ident props where req: "req = (scope, ident, props)" by (cases req) auto
  from Cons.prems req obtain stack1 where
    first: "newEc2AcceptVpcEndpointConnection lambdaDir scope ident props stack = Inr stack1"
    and others: "constructAll lambdaDir reqs stack1 = Inr stack'"
    by (auto split: sum.splits)
  from constructor_result[OF first] obtain added1 fn1 where
    a1: "stack1 = stack @ added1" and f1: "tryFindChild stack1 constructName = Some fn1"
    and t1: "serviceTokens added1 = [functionArn fn1]"
    and l1: "length (filter isBackingLambda added1) \<le> 1"
    and n1: "tryFindChild stack constructName \<noteq> None \<longrightarrow> filter isBackingLambda added1 = []"
    by blast
  from Cons.IH[OF others] obtain added2 where
    a2: "stack' = stack1 @ added2"
    and n2: "tryFindChild stack1 constructName \<noteq> None \<longrightarrow> filter isBackingLambda added2 = []"
    and t2: "\<forall>tok \<in> set (serviceTokens added2).
           \<exists>fn. tryFindChild stack' constructName = Some fn \<and> tok = functionArn fn"
    by blast
  from n2 f1 have none2: "filter isBackingLambda added2 = []" by simp
  from f1 a2 have f': "tryFindChild stack' constructName = Some fn1"
    by (simp add: tryFindChild_append)
  have "stack' = stack @ (added1 @ added2)" using a1 a2 by simp
  moreover have "length (filter isBackingLambda (added1 @ added2)) \<le> 1"
    using l1 none2 by simp
  moreover have "tryFindChild stack constructName \<noteq> None \<longrightarrow>
      filter isBackingLambda (added1 @ added2) = []"
    using n1 none2 by simp
  moreover have "\<forall>tok \<in> set (serviceTokens (added1 @ added2)).
           \<exists>fn. tryFindChild stack' constructName = Some fn \<and> tok = functionArn fn"
    using t1 t2 f' by (auto simp: serviceTokens_append)
  ultimately show ?case by blast
qed

text \<open>
  Claim C9. The getter returns the child of the stack that has the fixed construct name when
  there is one, and leaves the stack as it is; when there is none it constructs the function
  under that name, the only step that constructs one. So a program that constructs any number
  of these custom resources in a stack constructs at most one such function, none when the
  stack had a child of that name before, and the service token of every custom resource it
  constructs is the ARN of that one child of the stack.
\<close>

theorem single_backing_lambda:
  "(tryFindChild stack constructName = Some existing \<longrightarrow>
      lambdaFunction lambdaDir thisRole stack = Inr (existing, stack))
   \<and> (tryFindChild stack constructName = None \<longrightarrow>
        (\<exists>fn. lambdaFunction lambdaDir thisRole stack = Inr (fn, stack @ [fn])
           \<and> isBackingLambda fn \<and> tryFindChild (stack @ [fn]) constructName = Some fn))
   \<and> (constructAll lambdaDir reqs stack = Inr stack' \<longrightarrow>
        (\<exists>added. stack' = stack @ added
           \<and> length (filter isBackingLambda added) \<le> 1
           \<and> (tryFindChild stack constructName \<noteq> None \<longrightarrow> filter isBackingLambda added = [])
           \<and> (\<forall>tok \<in> set (serviceTokens added).
                 \<exists>fn. tryFindChild stack' constructName = Some fn \<and> tok = functionArn fn)))"
  using lambdaFunction_existing[of stack existing lambdaDir thisRole]
    lambdaFunction_first[of stack lambdaDir thisRole]
    constructAll_result[of lambdaDir reqs stack stack']
  by blast

theorem single_backing_lambda_witness:
  "(\<exists>fn. lambdaFunction ''dist'' [''AcceptA''] [] = Inr (fn, [] @ [fn])
        \<and> isBackingLambda fn \<and> tryFindChild ([] @ [fn]) constructName = Some fn)
   \<and> lambdaFunction ''dist'' [''AcceptB''] [OtherConstruct [constructName]]
       = Inr (OtherConstruct [constructName], [OtherConstruct [constructName]])
   \<and> (\<exists>stack'. constructAll ''dist'' exampleRequests [] = Inr stack'
        \<and> (\<exists>added. stack' = [] @ added
              \<and> length (filter isBackingLambda added) \<le> 1
              \<and> (\<forall>tok \<in> set (serviceTokens added).
                    \<exists>fn. tryFindChild stack' constructName = Some fn \<and> tok = functionArn fn)))"
proof -
  have none: "tryFindChild [] constructName = None"
    by (simp add: tryFindChild_def)
  have some: "tryFindChild [OtherConstruct [constructName]] constructName
      = Some (OtherConstruct [constructName])"
    by (simp add: tryFindChild_def)
  obtain stack' where run: "constructAll ''dist'' exampleRequests [] = Inr stack'"
    by (simp add: exampleRequests_def newEc2AcceptVpcEndpointConnection_def newConstruct_def
          lambdaFunction_def tryFindChild_def resourceType_def constructName_def Let_def)
  have 1: "\<exists>fn. lambdaFunction ''dist'' [''AcceptA''] [] = Inr (fn, [] @ [fn])
        \<and> isBackingLambda fn \<and> tryFindChild ([] @ [fn]) constructName = Some fn"
    using single_backing_lambda[of "[]" "OtherConstruct []" "''dist''" "[''AcceptA'']" "[]" "[]"] none
    by blast
  have 2: "lambdaFunction ''dist'' [''AcceptB''] [OtherConstruct [constructName]]
       = Inr (OtherConstruct [constructName], [OtherConstruct [constructName]])"
    using single_backing_lambda[of "[OtherConstruct [constructName]]"
        "OtherConstruct [constructName]" "''dist''" "[''AcceptB'']" "[]" "[]"] some
    by blast
  have 3: "\<exists>added. stack' = [] @ added
              \<and> length (filter isBackingLambda added) \<le> 1
              \<and> (\<forall>tok \<in> set (serviceTokens added).
                    \<exists>fn. tryFindChild stack' constructName = Some fn \<and> tok = functionArn fn)"
    using single_backing_lambda[of "[]" "OtherConstruct []" "''dist''" "[]" exampleRequests stack'] run
    by blast
  from 1 2 run 3 show ?thesis by blast
qed

section \<open>Properties of the metadata service\<close>

lemma readOnlyRolesOf_empty_iff:
  "readOnlyRolesOf a rs = [] \<longleftrightarrow> \<not> list_ex (\<lambda>r. metaDataReadOnlyAccess r = Some True) rs"
  by (induction rs) auto

lemma collectReadOnlyRoles_empty_iff:
  "collectReadOnlyRoles props cfgs = [] \<longleftrightarrow>
     \<not> list_ex (\<lambda>entry. list_ex (\<lambda>r. metaDataReadOnlyAccess r = Some True)
                 (case roles (snd entry) of None \<Rightarrow> [] | Some rs \<Rightarrow> rs)) cfgs"
  by (induction cfgs) (auto simp: readOnlyRolesOf_empty_iff)

lemma metadataReadOnlyRoles_empty_iff:
  "metadataReadOnlyRoles props = [] \<longleftrightarrow> \<not> hasReadOnlyRole props"
  by (simp add: metadataReadOnlyRoles_def hasReadOnlyRole_def collectReadOnlyRoles_empty_iff)

lemma keyStatements_append: "keyStatements (xs @ ys) = keyStatements xs @ keyStatements ys"
  by (induction xs rule: keyStatements.induct) auto

lemma bucketStatements_append:
  "bucketStatements (xs @ ys) = bucketStatements xs @ bucketStatements ys"
  by (induction xs rule: bucketStatements.induct) auto


lemma grantees_append: "grantees (xs @ ys) = grantees xs @ grantees ys"
  by (induction xs rule: grantees.induct) auto

lemma metadataConstructIds_append:
  "metadataConstructIds (xs @ ys) = metadataConstructIds xs @ metadataConstructIds ys"
  by (induction xs rule: metadataConstructIds.induct) auto

lemma keyStatements_bucket_calls: "keyStatements (map BucketAddToResourcePolicy ss) = []"
  by (induction ss) auto

lemma bucketStatements_bucket_calls: "bucketStatements (map BucketAddToResourcePolicy ss) = ss"
  by (induction ss) auto


lemma grantees_bucket_calls: "grantees (map BucketAddToResourcePolicy ss) = []"
  by (induction ss) auto

lemma metadataConstructIds_bucket_calls:
  "metadataConstructIds (map BucketAddToResourcePolicy ss) = []"
  by (induction ss) auto

text \<open>
  No constructor adds a statement to the key or the bucket or grants anything, whether it
  throws or not.
\<close>

lemma construct_statements:
  "keyStatements (fst (construct cls scope ident effs)) = keyStatements effs"
  "bucketStatements (fst (construct cls scope ident effs)) = bucketStatements effs"
  "grantees (fst (construct cls scope ident effs)) = grantees effs"
  by (simp_all add: construct_def keyStatements_append bucketStatements_append grantees_append)

lemma construct_fresh:
  "(scope, ident) \<notin> set (metadataConstructIds effs) \<Longrightarrow>
   construct cls scope ident effs = (effs @ [Construct cls scope ident], None)"
  by (simp add: construct_def)

lemma andThen_statements:
  assumes "\<And>effs. keyStatements (fst (next effs)) = keyStatements effs"
    and "\<And>effs. bucketStatements (fst (next effs)) = bucketStatements effs"
    and "\<And>effs. grantees (fst (next effs)) = grantees effs"
  shows "keyStatements (fst (andThen run next)) = keyStatements (fst run)"
    and "bucketStatements (fst (andThen run next)) = bucketStatements (fst run)"
    and "grantees (fst (andThen run next)) = grantees (fst run)"
  using assms by (simp_all add: andThen_def split: option.splits)

lemma andThen_None: "andThen (effs, None) next = next effs"
  by (simp add: andThen_def)

lemma andThen_Some: "andThen (effs, Some e) next = (effs, Some e)"
  by (simp add: andThen_def)

lemma metadataBucket_fresh:
  "metadataBucket accountStack [] =
     ([Construct ''Organizations'' accountStack ''MetadataOrganizations'',
       Construct ''kms.Key'' accountStack ''MetadataBucketKey'',
       Construct ''s3.Bucket'' accountStack ''MetadataBucket''], None)"
  by (simp add: metadataBucket_def andThen_def construct_def)

lemma metadataLambda_statements:
  "keyStatements (fst (metadataLambda masterAccountStack effs)) = keyStatements effs"
  "bucketStatements (fst (metadataLambda masterAccountStack effs)) = bucketStatements effs"
  by (simp_all add: metadataLambda_def andThen_def construct_def keyStatements_append
        bucketStatements_append split: option.splits)

lemma metadataLambda_fresh:
  assumes "(masterAccountStack, ''metadata-lambda'') \<notin> set (metadataConstructIds effs)"
    and "(masterAccountStack, ''MetadataLambda'') \<notin> set (metadataConstructIds effs)"
    and "(masterAccountStack, ''MetadataCWRule'') \<notin> set (metadataConstructIds effs)"
  shows "metadataLambda masterAccountStack effs =
     (effs @ [Construct ''iam.Role'' masterAccountStack ''metadata-lambda'',
              RoleAddToPolicy lambdaRoleStatement,
              Construct ''lambda.Function'' masterAccountStack ''MetadataLambda'',
              KeyGrantEncrypt ''MetadataLambda'',
              BucketGrantWrite ''MetadataLambda'',
              Construct ''events.Rule'' masterAccountStack ''MetadataCWRule'',
              RuleAddTarget ''MetadataLambda''], None)"
  using assms
  by (simp add: metadataLambda_def construct_fresh andThen_None metadataConstructIds_append)

lemma metadataPolicyFor_statements:
  "keyStatements (fst (metadataPolicyFor props key stack output effs)) = keyStatements effs"
  "bucketStatements (fst (metadataPolicyFor props key stack output effs)) = bucketStatements effs"
  "grantees (fst (metadataPolicyFor props key stack output effs)) = grantees effs"
  by (simp_all add: metadataPolicyFor_def andThen_def construct_def keyStatements_append
        bucketStatements_append grantees_append split: option.splits)

lemma metadataPoliciesOf_statements:
  "keyStatements (fst (metadataPoliciesOf props key stack outputs effs)) = keyStatements effs
   \<and> bucketStatements (fst (metadataPoliciesOf props key stack outputs effs)) = bucketStatements effs
   \<and> grantees (fst (metadataPoliciesOf props key stack outputs effs)) = grantees effs"
proof (induction outputs arbitrary: effs)
  case Nil
  then show ?case by simp
next
  case (Cons out1 rest)
  obtain effs' thrown where step: "metadataPolicyFor props key stack out1 effs = (effs', thrown)"
    by (cases "metadataPolicyFor props key stack out1 effs")
  have same: "keyStatements effs' = keyStatements effs" "bucketStatements effs' = bucketStatements effs"
    "grantees effs' = grantees effs"
    using metadataPolicyFor_statements[of props key stack out1 effs] step by simp_all
  show ?case
  proof (cases thrown)
    case None
    with step same Cons.IH[of effs'] show ?thesis by simp
  next
    case (Some e)
    with step same show ?thesis by simp
  qed
qed

lemma metadataPolicies_statements:
  "keyStatements (fst (metadataPolicies props cfgs effs)) = keyStatements effs
   \<and> bucketStatements (fst (metadataPolicies props cfgs effs)) = bucketStatements effs
   \<and> grantees (fst (metadataPolicies props cfgs effs)) = grantees effs"
proof (induction cfgs arbitrary: effs)
  case Nil
  then show ?case by simp
next
  case (Cons cfg rest)
  obtain key iamConfig where cfg: "cfg = (key, iamConfig)" by (cases cfg)
  let ?outputs = "map (\<lambda>r. tryFindRoleOutput props key (role r))
      (filter (\<lambda>r. metaDataReadOnlyAccess r = Some True) (the (roles iamConfig)))"
  show ?case
  proof (cases "roles iamConfig \<noteq> None \<and> tryGetOrCreateStack props key (logRegion props) \<noteq> None
      \<and> length ?outputs > 0")
    case False
    then have "metadataPolicies props (cfg # rest) effs = metadataPolicies props rest effs"
      by (auto simp: cfg split: option.splits)
    with Cons.IH[of effs] show ?thesis by simp
  next
    case True
    then obtain stack where stack: "tryGetOrCreateStack props key (logRegion props) = Some stack"
      by auto
    obtain effs' thrown where
      inner: "metadataPoliciesOf props key stack ?outputs effs = (effs', thrown)"
      by (cases "metadataPoliciesOf props key stack ?outputs effs")
    have same: "keyStatements effs' = keyStatements effs"
      "bucketStatements effs' = bucketStatements effs" "grantees effs' = grantees effs"
      using metadataPoliciesOf_statements[of props key stack ?outputs effs] inner by simp_all
    show ?thesis
    proof (cases thrown)
      case None
      with True stack inner have
        "metadataPolicies props (cfg # rest) effs = metadataPolicies props rest effs'"
        by (auto simp: cfg split: option.splits)
      with same Cons.IH[of effs'] show ?thesis by simp
    next
      case (Some e)
      with True stack inner have "metadataPolicies props (cfg # rest) effs = (effs', Some e)"
        by (auto simp: cfg split: option.splits)
      with same show ?thesis by simp
    qed
  qed
qed

lemma metadataStatements_key:
  "keyStatements (metadataStatements props effs) =
     keyStatements effs @
     (if hasReadOnlyRole props then [readOnlyKeyStatement (metadataReadOnlyRoles props)] else []) @
     [acceleratorKeyStatement props]"
  using metadataReadOnlyRoles_empty_iff[of props]
  by (simp add: metadataStatements_def Let_def keyStatements_append keyStatements_bucket_calls)

lemma metadataStatements_bucket:
  "bucketStatements (metadataStatements props effs) =
     bucketStatements effs @
     (if hasReadOnlyRole props
      then [readOnlyBucketStatement props (metadataReadOnlyRoles props)] else []) @
     bucketBaseStatements props"
  using metadataReadOnlyRoles_empty_iff[of props]
  by (simp add: metadataStatements_def Let_def bucketStatements_append
        bucketStatements_bucket_calls)

lemma metadataStatementsOld_key:
  "keyStatements (metadataStatementsOld props effs) =
     keyStatements effs @
     [readOnlyKeyStatement (metadataReadOnlyRoles props), acceleratorKeyStatementOld props]"
  by (simp add: metadataStatementsOld_def Let_def truthyArray_def keyStatements_append
        keyStatements_bucket_calls)

lemma metadataStatementsOld_bucket:
  "bucketStatements (metadataStatementsOld props effs) =
     bucketStatements effs @
     readOnlyBucketStatement props (metadataReadOnlyRoles props) # bucketBaseStatements props"
  by (simp add: metadataStatementsOld_def Let_def truthyArray_def bucketStatements_append
        bucketStatements_bucket_calls)


lemma metadataStatements_neutral:
  "grantees (metadataStatements props effs) = grantees effs"
  "metadataConstructIds (metadataStatements props effs) = metadataConstructIds effs"
  by (simp_all add: metadataStatements_def Let_def grantees_append grantees_bucket_calls
        metadataConstructIds_append metadataConstructIds_bucket_calls)

lemma createMetadataService_run:
  assumes "getOrCreateAccountStack props (managementAccount props) = Inr masterAccountStack"
    and "getOrCreateAccountStack props (logAccount props) = Inr logAccountStack"
  shows "createMetadataService props =
     metadataPolicies props (getIamConfigs props)
       (metadataStatements props
          [Construct ''Organizations'' logAccountStack ''MetadataOrganizations'',
           Construct ''kms.Key'' logAccountStack ''MetadataBucketKey'',
           Construct ''s3.Bucket'' logAccountStack ''MetadataBucket''] @
        [Construct ''iam.Role'' masterAccountStack ''metadata-lambda'',
         RoleAddToPolicy lambdaRoleStatement,
         Construct ''lambda.Function'' masterAccountStack ''MetadataLambda'',
         KeyGrantEncrypt ''MetadataLambda'',
         BucketGrantWrite ''MetadataLambda'',
         Construct ''events.Rule'' masterAccountStack ''MetadataCWRule'',
         RuleAddTarget ''MetadataLambda''])"
proof -
  let ?bucket = "[Construct ''Organizations'' logAccountStack ''MetadataOrganizations'',
       Construct ''kms.Key'' logAccountStack ''MetadataBucketKey'',
       Construct ''s3.Bucket'' logAccountStack ''MetadataBucket'']"
  have "metadataLambda masterAccountStack (metadataStatements props ?bucket) =
     (metadataStatements props ?bucket @
        [Construct ''iam.Role'' masterAccountStack ''metadata-lambda'',
         RoleAddToPolicy lambdaRoleStatement,
         Construct ''lambda.Function'' masterAccountStack ''MetadataLambda'',
         KeyGrantEncrypt ''MetadataLambda'',
         BucketGrantWrite ''MetadataLambda'',
         Construct ''events.Rule'' masterAccountStack ''MetadataCWRule'',
         RuleAddTarget ''MetadataLambda''], None)"
    by (rule metadataLambda_fresh) (simp_all add: metadataStatements_neutral)
  with assms show ?thesis
    by (simp add: createMetadataService_def metadataBucket_fresh andThen_None)
qed

lemma createMetadataService_statements:
  assumes "getOrCreateAccountStack props (managementAccount props) = Inr masterAccountStack"
    and "getOrCreateAccountStack props (logAccount props) = Inr logAccountStack"
  shows "keyStatements (fst (createMetadataService props)) =
           (if hasReadOnlyRole props then [readOnlyKeyStatement (metadataReadOnlyRoles props)]
            else []) @ [acceleratorKeyStatement props]"
    and "bucketStatements (fst (createMetadataService props)) =
           (if hasReadOnlyRole props
            then [readOnlyBucketStatement props (metadataReadOnlyRoles props)] else []) @
           bucketBaseStatements props"
    and "grantees (fst (createMetadataService props)) = [''MetadataLambda'', ''MetadataLambda'']"
  unfolding createMetadataService_run[OF assms]
  by (simp_all add: metadataPolicies_statements keyStatements_append bucketStatements_append
        grantees_append metadataStatements_key metadataStatements_bucket
        metadataStatements_neutral)

lemma createMetadataServiceOld_statements:
  assumes "getOrCreateAccountStack props (managementAccount props) = Inr masterAccountStack"
  shows "keyStatements (fst (createMetadataServiceOld props)) =
           [readOnlyKeyStatement (metadataReadOnlyRoles props), acceleratorKeyStatementOld props]"
    and "bucketStatements (fst (createMetadataServiceOld props)) =
           readOnlyBucketStatement props (metadataReadOnlyRoles props) # bucketBaseStatements props"
  using assms
  by (simp_all add: createMetadataServiceOld_def metadataBucket_fresh andThen_None
        metadataLambda_statements metadataStatementsOld_key metadataStatementsOld_bucket
        keyStatements_append bucketStatements_append)

text \<open>
  An account with two roles that have read-only access: the second managed policy has the
  construct id of the first, and its constructor throws.
\<close>

lemma two_read_only_roles_throw:
  "snd (createMetadataService exampleMetadataPropsTwoRoles) =
     Some (Exn ''There is already a Construct with name IAM-Metadata-Policy-security'')"
  by code_simp

text \<open>
  Claim C10. When the current definition of \<open>createMetadataService\<close> obtains its two stacks,
  the statements it adds to the policy of the key and to the policy of the bucket are the
  read-only statement, exactly when some IAM role of the configuration has
  \<open>meta-data-read-only-access\<close> set, followed by the statements for all accounts: with no such
  role it adds no read-only statement, and every statement it adds has any principal of the
  organization as its principal. Besides these statements, the function grants on the key
  and the bucket to the Lambda function alone. This holds whether or not the managed
  policies further down throw. The older definition adds the read-only statements in every
  case, with no principal when there is no such role, its guard being the array and not its
  length.
\<close>

theorem metadata_read_only_guard:
  "(getOrCreateAccountStack props (managementAccount props) = Inr masterAccountStack
      \<and> getOrCreateAccountStack props (logAccount props) = Inr logAccountStack \<longrightarrow>
      keyStatements (fst (createMetadataService props)) =
        (if hasReadOnlyRole props then [readOnlyKeyStatement (metadataReadOnlyRoles props)]
         else []) @ [acceleratorKeyStatement props]
      \<and> bucketStatements (fst (createMetadataService props)) =
        (if hasReadOnlyRole props
         then [readOnlyBucketStatement props (metadataReadOnlyRoles props)] else []) @
        bucketBaseStatements props
      \<and> (readOnlyKeyStatement (metadataReadOnlyRoles props)
            \<in> set (keyStatements (fst (createMetadataService props)))
          \<longleftrightarrow> hasReadOnlyRole props)
      \<and> (readOnlyBucketStatement props (metadataReadOnlyRoles props)
            \<in> set (bucketStatements (fst (createMetadataService props)))
          \<longleftrightarrow> hasReadOnlyRole props)
      \<and> (\<not> hasReadOnlyRole props \<longrightarrow>
            (\<forall>s \<in> set (keyStatements (fst (createMetadataService props))
                       @ bucketStatements (fst (createMetadataService props))).
               principals s = [AnyPrincipal]))
      \<and> grantees (fst (createMetadataService props)) = [''MetadataLambda'', ''MetadataLambda''])
   \<and> (getOrCreateAccountStack props (managementAccount props) = Inr masterAccountStack \<longrightarrow>
        keyStatements (fst (createMetadataServiceOld props)) =
          [readOnlyKeyStatement (metadataReadOnlyRoles props), acceleratorKeyStatementOld props]
        \<and> bucketStatements (fst (createMetadataServiceOld props)) =
          readOnlyBucketStatement props (metadataReadOnlyRoles props) # bucketBaseStatements props)
   \<and> (hasReadOnlyRole props \<longleftrightarrow> metadataReadOnlyRoles props \<noteq> [])"
proof (intro conjI impI)
  assume stacks: "getOrCreateAccountStack props (managementAccount props) = Inr masterAccountStack
      \<and> getOrCreateAccountStack props (logAccount props) = Inr logAccountStack"
  then have k: "keyStatements (fst (createMetadataService props)) =
        (if hasReadOnlyRole props then [readOnlyKeyStatement (metadataReadOnlyRoles props)]
         else []) @ [acceleratorKeyStatement props]"
    and b: "bucketStatements (fst (createMetadataService props)) =
        (if hasReadOnlyRole props
         then [readOnlyBucketStatement props (metadataReadOnlyRoles props)] else []) @
        bucketBaseStatements props"
    and g: "grantees (fst (createMetadataService props)) = [''MetadataLambda'', ''MetadataLambda'']"
    by (simp_all add: createMetadataService_statements)
  show "grantees (fst (createMetadataService props)) = [''MetadataLambda'', ''MetadataLambda'']"
    by (rule g)
  show "keyStatements (fst (createMetadataService props)) =
        (if hasReadOnlyRole props then [readOnlyKeyStatement (metadataReadOnlyRoles props)]
         else []) @ [acceleratorKeyStatement props]"
    by (rule k)
  show "bucketStatements (fst (createMetadataService props)) =
        (if hasReadOnlyRole props
         then [readOnlyBucketStatement props (metadataReadOnlyRoles props)] else []) @
        bucketBaseStatements props"
    by (rule b)
  show "readOnlyKeyStatement (metadataReadOnlyRoles props)
            \<in> set (keyStatements (fst (createMetadataService props)))
          \<longleftrightarrow> hasReadOnlyRole props"
    unfolding k by (simp add: readOnlyKeyStatement_def acceleratorKeyStatement_def)
  show "readOnlyBucketStatement props (metadataReadOnlyRoles props)
            \<in> set (bucketStatements (fst (createMetadataService props)))
          \<longleftrightarrow> hasReadOnlyRole props"
    unfolding b by (simp add: readOnlyBucketStatement_def bucketBaseStatements_def)
  show "\<forall>s \<in> set (keyStatements (fst (createMetadataService props))
                       @ bucketStatements (fst (createMetadataService props))).
               principals s = [AnyPrincipal]"
    if "\<not> hasReadOnlyRole props"
    unfolding k b using that
    by (auto simp: acceleratorKeyStatement_def bucketBaseStatements_def)
next
  assume "getOrCreateAccountStack props (managementAccount props) = Inr masterAccountStack"
  then show "keyStatements (fst (createMetadataServiceOld props)) =
          [readOnlyKeyStatement (metadataReadOnlyRoles props), acceleratorKeyStatementOld props]"
    and "bucketStatements (fst (createMetadataServiceOld props)) =
          readOnlyBucketStatement props (metadataReadOnlyRoles props) # bucketBaseStatements props"
    by (simp_all add: createMetadataServiceOld_statements)
next
  show "hasReadOnlyRole props \<longleftrightarrow> metadataReadOnlyRoles props \<noteq> []"
    using metadataReadOnlyRoles_empty_iff[of props] by simp
qed

theorem metadata_read_only_guard_witness:
  "keyStatements (fst (createMetadataService exampleMetadataProps)) =
     [readOnlyKeyStatement [ArnPrincipal ''arn:aws:iam::333333333333:role/Auditor''],
      acceleratorKeyStatement exampleMetadataProps]
   \<and> bucketStatements (fst (createMetadataService exampleMetadataProps)) =
       readOnlyBucketStatement exampleMetadataProps
         [ArnPrincipal ''arn:aws:iam::333333333333:role/Auditor'']
       # bucketBaseStatements exampleMetadataProps
   \<and> keyStatements (fst (createMetadataService exampleMetadataPropsNoRole)) =
       [acceleratorKeyStatement exampleMetadataPropsNoRole]
   \<and> bucketStatements (fst (createMetadataService exampleMetadataPropsNoRole)) =
       bucketBaseStatements exampleMetadataPropsNoRole
   \<and> keyStatements (fst (createMetadataService exampleMetadataPropsTwoRoles)) =
       [readOnlyKeyStatement [ArnPrincipal ''arn:aws:iam::333333333333:role/Admin'',
                              ArnPrincipal ''arn:aws:iam::333333333333:role/Auditor''],
        acceleratorKeyStatement exampleMetadataPropsTwoRoles]
   \<and> keyStatements (fst (createMetadataServiceOld exampleMetadataPropsNoRole)) =
       [readOnlyKeyStatement [], acceleratorKeyStatementOld exampleMetadataPropsNoRole]
   \<and> grantees (fst (createMetadataService exampleMetadataProps))
       = [''MetadataLambda'', ''MetadataLambda'']"
proof -
  have roles: "metadataReadOnlyRoles exampleMetadataProps
      = [ArnPrincipal ''arn:aws:iam::333333333333:role/Auditor'']"
    "metadataReadOnlyRoles exampleMetadataPropsNoRole = []"
    "metadataReadOnlyRoles exampleMetadataPropsTwoRoles
      = [ArnPrincipal ''arn:aws:iam::333333333333:role/Admin'',
         ArnPrincipal ''arn:aws:iam::333333333333:role/Auditor'']"
    by (simp_all add: metadataReadOnlyRoles_def exampleMetadataProps_def
          exampleMetadataPropsNoRole_def exampleMetadataPropsTwoRoles_def templateString_def)
  have flags: "hasReadOnlyRole exampleMetadataProps" "\<not> hasReadOnlyRole exampleMetadataPropsNoRole"
    "hasReadOnlyRole exampleMetadataPropsTwoRoles"
    by (simp_all add: hasReadOnlyRole_def exampleMetadataProps_def exampleMetadataPropsNoRole_def
          exampleMetadataPropsTwoRoles_def)
  have stacks:
    "getOrCreateAccountStack exampleMetadataProps (managementAccount exampleMetadataProps)
       = Inr (''management'', ''ca-central-1'')"
    "getOrCreateAccountStack exampleMetadataProps (logAccount exampleMetadataProps)
       = Inr (''log'', ''ca-central-1'')"
    "getOrCreateAccountStack exampleMetadataPropsNoRole (managementAccount exampleMetadataPropsNoRole)
       = Inr (''management'', ''ca-central-1'')"
    "getOrCreateAccountStack exampleMetadataPropsNoRole (logAccount exampleMetadataPropsNoRole)
       = Inr (''log'', ''ca-central-1'')"
    "getOrCreateAccountStack exampleMetadataPropsTwoRoles (managementAccount exampleMetadataPropsTwoRoles)
       = Inr (''management'', ''ca-central-1'')"
    "getOrCreateAccountStack exampleMetadataPropsTwoRoles (logAccount exampleMetadataPropsTwoRoles)
       = Inr (''log'', ''ca-central-1'')"
    by (simp_all add: exampleMetadataProps_def exampleMetadataPropsNoRole_def
          exampleMetadataPropsTwoRoles_def)
  from metadata_read_only_guard[of exampleMetadataProps "(''management'', ''ca-central-1'')"
      "(''log'', ''ca-central-1'')"]
    metadata_read_only_guard[of exampleMetadataPropsNoRole "(''management'', ''ca-central-1'')"
      "(''log'', ''ca-central-1'')"]
    metadata_read_only_guard[of exampleMetadataPropsTwoRoles "(''management'', ''ca-central-1'')"
      "(''log'', ''ca-central-1'')"]
    roles flags stacks
  show ?thesis by simp
qed

end
